theory Spec2Isabelle
  imports Main "HOL-Library.Word" "HOL-Library.AList"
begin

section \<open>The Kubernetes watcher of the agent daemon (daemon/k8s\_watcher.go)\<close>

text \<open>
  The watcher turns events on Kubernetes objects into updates of the daemon's tables and
  into calls on its collaborators (policy repository, datapath, controller manager,
  API client). The collaborators live outside this file of the repository: they are taken
  as parameters (records of functions), and every call that leaves the watcher is logged
  in a trace, so that a property about "which calls were made, in which order" is a
  property of a list. The writes of the policy import metadata cache are logged in the
  same trace: their place among the calls is what the properties of the policy handlers
  are about.
\<close>

subsection \<open>Errors, metadata, objects\<close>

text \<open>Go's \<open>error\<close>: a value with a method \<open>Error()\<close>; a nil error is \<open>None\<close>.\<close>

datatype error = errorString (Error: string)

record ObjectMeta =
  Name :: string
  Namespace :: string
  Labels :: "(string \<times> string) list"
  Annotations :: "(string \<times> string) list"

text \<open>
  \<open>cilium_v2.CiliumNetworkPolicyNodeStatus\<close>. The fields are plain Go fields: one that a
  struct literal leaves out holds its zero value (\<open>0\<close>, the empty string).
\<close>

record CiliumNetworkPolicyNodeStatus =
  nsOK :: bool
  nsError :: string
  nsLastUpdated :: nat
  nsRevision :: "64 word"
  nsEnforcing :: bool
  nsAnnotations :: "(string \<times> string) list"

text \<open>A rule of the policy language is opaque to the watcher.\<close>

type_synonym Rule = string

record CiliumNetworkPolicy =
  cnpMeta :: ObjectMeta
  Spec :: "Rule option"
  Specs :: "Rule list"
  StatusNodes :: "(string \<times> CiliumNetworkPolicyNodeStatus) list"

record Ingress =
  ingMeta :: ObjectMeta
  ingBackend :: "(string \<times> string) option"

text \<open>\<open>v1.Service\<close> and \<open>v1.Endpoints\<close>, by the fields the watcher reads.\<close>

record ServicePort =
  spName :: string
  spProtocol :: string
  spPort :: "32 word"

record Service =
  svcMeta :: ObjectMeta
  svcType :: string
  ClusterIP :: string
  specPorts :: "ServicePort list"
  svcSelector :: "(string \<times> string) list"

record EndpointPort =
  eptName :: string
  eptProtocol :: string
  eptPort :: "32 word"

record EndpointSubset =
  Addresses :: "string list"
  subsetPorts :: "EndpointPort list"

record Endpoints =
  epMeta :: ObjectMeta
  Subsets :: "EndpointSubset list"

text \<open>A value of type \<open>interface{}\<close>, as the informers and the store hand it over.\<close>

datatype object =
  IngressObj Ingress
| CNPObj CiliumNetworkPolicy
| ServiceObj Service
| EndpointsObj Endpoints
| OtherObj string

fun TypeOf :: "object \<Rightarrow> string" where
  "TypeOf (IngressObj _) = ''*v1beta1.Ingress''"
| "TypeOf (CNPObj _) = ''*v2.CiliumNetworkPolicy''"
| "TypeOf (ServiceObj _) = ''*v1.Service''"
| "TypeOf (EndpointsObj _) = ''*v1.Endpoints''"
| "TypeOf (OtherObj t) = t"

subsection \<open>The equality predicate registered for Ingress\<close>

text \<open>
  \<open>log.Panicf\<close> panics: the result is \<open>Inl\<close> of the type name that was printed. The second
  type assertion of the source tests \<open>o1\<close> again (and prints the type of \<open>o2\<close>).
\<close>

definition equalV1beta1Ingress :: "object \<Rightarrow> object \<Rightarrow> string + bool" where
  "equalV1beta1Ingress o1 o2 =
     (case o1 of
        IngressObj _ \<Rightarrow>
          (case o1 of
             IngressObj _ \<Rightarrow> Inr False
           | _ \<Rightarrow> Inl (TypeOf o2))
      | _ \<Rightarrow> Inl (TypeOf o1))"

text \<open>
  Modelled from the spec: the controller factory (\<open>k8sUtils.ControllerFactory\<close>) is not in
  the source at hand. The spec says of it that it is given "an equality predicate" and
  "delivers deduplicated events to handlers": an update whose two versions the predicate
  judges equal is dropped, any other is handed to the update handler.
\<close>

definition updateIsDelivered :: "(object \<Rightarrow> object \<Rightarrow> string + bool) \<Rightarrow> object \<Rightarrow> object \<Rightarrow> bool" where
  "updateIsDelivered equal old new = (equal old new \<noteq> Inr True)"

subsection \<open>Writing the per-node status of a CiliumNetworkPolicy\<close>

text \<open>
  The calls a status controller makes, each with the answer it got.
  Durations are in milliseconds.
\<close>

datatype status_call =
  WaitForEndpoints nat "64 word" "error option"
| UpdateStatus string CiliumNetworkPolicy "error option"
| Update string CiliumNetworkPolicy "error option"
| Sleep nat

text \<open>
  What the status controller uses from outside this file. The answers of the API server
  and the clock depend on when they are asked: they take the number of the attempt.
\<close>

record K8sEnv =
  nodeGetName :: string
  NewTimestamp :: "nat \<Rightarrow> nat"
  ExtractNamespace :: "ObjectMeta \<Rightarrow> string"
  updateStatusVerCheck :: bool
  clientUpdateStatus :: "nat \<Rightarrow> string \<Rightarrow> CiliumNetworkPolicy \<Rightarrow> error option"
  clientUpdate :: "nat \<Rightarrow> string \<Rightarrow> CiliumNetworkPolicy \<Rightarrow> error option"
  Parse :: "CiliumNetworkPolicy \<Rightarrow> error + Rule list"
  WaitForEndpointsAtPolicyRev :: "nat \<Rightarrow> 64 word \<Rightarrow> error option"

text \<open>
  Modelled from the spec: \<open>SetPolicyStatus\<close> of the package \<open>cilium_v2\<close> is not in the
  source at hand; the spec has the status written "under a per-node key".
\<close>

definition SetPolicyStatus ::
  "CiliumNetworkPolicy \<Rightarrow> string \<Rightarrow> CiliumNetworkPolicyNodeStatus \<Rightarrow> CiliumNetworkPolicy" where
  "SetPolicyStatus cnp nodeName cnpns =
     cnp\<lparr>StatusNodes := AList.update nodeName cnpns (StatusNodes cnp)\<rparr>"

definition updateCNPNodeStatus ::
  "'z K8sEnv_scheme \<Rightarrow> nat \<Rightarrow> CiliumNetworkPolicy \<Rightarrow> bool \<Rightarrow> bool \<Rightarrow> error option \<Rightarrow> 64 word
     \<Rightarrow> (string \<times> string) list \<Rightarrow> error option \<times> CiliumNetworkPolicy \<times> status_call" where
  "updateCNPNodeStatus env t cnp enforcing ok err rev' annotations =
     (let cnpns =
            (case err of
               Some e \<Rightarrow>
                 \<lparr>nsOK = ok, nsError = Error e, nsLastUpdated = NewTimestamp env t,
                  nsRevision = 0, nsEnforcing = enforcing, nsAnnotations = annotations\<rparr>
             | None \<Rightarrow>
                 \<lparr>nsOK = ok, nsError = [], nsLastUpdated = NewTimestamp env t,
                  nsRevision = rev', nsEnforcing = enforcing, nsAnnotations = annotations\<rparr>);
          cnp' = SetPolicyStatus cnp (nodeGetName env) cnpns;
          ns = ExtractNamespace env (cnpMeta cnp')
      in if updateStatusVerCheck env
         then (let err2 = clientUpdateStatus env t ns cnp' in (err2, cnp', UpdateStatus ns cnp' err2))
         else (let err2 = clientUpdate env t ns cnp' in (err2, cnp', Update ns cnp' err2)))"

text \<open>The object a call hands to the API server, and the answer to it.\<close>

fun writtenObject :: "status_call \<Rightarrow> CiliumNetworkPolicy option" where
  "writtenObject (UpdateStatus _ c _) = Some c"
| "writtenObject (Update _ c _) = Some c"
| "writtenObject _ = None"

fun isWrite :: "status_call \<Rightarrow> bool" where
  "isWrite (UpdateStatus _ _ _) = True"
| "isWrite (Update _ _ _) = True"
| "isWrite _ = False"

fun writeResult :: "status_call \<Rightarrow> error option" where
  "writeResult (UpdateStatus _ _ r) = r"
| "writeResult (Update _ _ r) = r"
| "writeResult _ = None"

definition writeFailed :: "status_call \<Rightarrow> bool" where
  "writeFailed c = (isWrite c \<and> writeResult c \<noteq> None)"

subsection \<open>The status controller of one policy\<close>

text \<open>
  The store is the informer's cache; what it answers changes while the controller runs,
  so it takes the number of the attempt. \<open>Get\<close> returns an error, or nothing, or an object.
\<close>

type_synonym Store = "nat \<Rightarrow> CiliumNetworkPolicy \<Rightarrow> error + object option"

definition getUpdatedCNPFromStore ::
  "(CiliumNetworkPolicy \<Rightarrow> error + object option) \<Rightarrow> CiliumNetworkPolicy \<Rightarrow> error + CiliumNetworkPolicy" where
  "getUpdatedCNPFromStore ciliumV2Store cnp =
     (case ciliumV2Store cnp of
        Inl err \<Rightarrow>
          Inl (errorString (''unable to find v2.CiliumNetworkPolicy in local cache: '' @ Error err))
      | Inr None \<Rightarrow> Inl (errorString ''v2.CiliumNetworkPolicy does not exist in local cache'')
      | Inr (Some (CNPObj serverRule)) \<Rightarrow> Inr serverRule
      | Inr (Some _) \<Rightarrow>
          Inl (errorString ''Received object of unknown type from API server, expecting v2.CiliumNetworkPolicy''))"

definition maxAttempts :: nat where
  "maxAttempts = 5"

definition updateWaitDuration :: nat where
  "updateWaitDuration = 200"

text \<open>How the retry loop is left: by \<open>return fromStoreErr\<close>, or at its end with \<open>cnpUpdateErr\<close>.\<close>

datatype loop_exit =
  Returned error
| Exited "error option"

function statusAttempts ::
  "'z K8sEnv_scheme \<Rightarrow> Store \<Rightarrow> CiliumNetworkPolicy \<Rightarrow> 64 word \<Rightarrow> error option \<Rightarrow> error option
     \<Rightarrow> nat \<Rightarrow> error option \<Rightarrow> loop_exit \<times> status_call list" where
  "statusAttempts env ciliumV2Store cnp rev' policyImportErr waitForEPsErr numAttempts cnpUpdateErr =
     (if numAttempts < maxAttempts then
        (case getUpdatedCNPFromStore (ciliumV2Store numAttempts) cnp of
           Inl fromStoreErr \<Rightarrow> (Returned fromStoreErr, [])
         | Inr serverRuleCpy \<Rightarrow>
             (let ruleCopyParseErr = (case Parse env serverRuleCpy of Inl e \<Rightarrow> Some e | Inr _ \<Rightarrow> None)
              in case (if policyImportErr \<noteq> None then
                         updateCNPNodeStatus env numAttempts serverRuleCpy False False policyImportErr rev'
                           (Annotations (cnpMeta serverRuleCpy))
                       else if ruleCopyParseErr \<noteq> None then
                         updateCNPNodeStatus env numAttempts serverRuleCpy False False ruleCopyParseErr rev'
                           (Annotations (cnpMeta serverRuleCpy))
                       else
                         updateCNPNodeStatus env numAttempts serverRuleCpy (waitForEPsErr = None) True
                           waitForEPsErr rev' (Annotations (cnpMeta serverRuleCpy)))
                 of (cnpUpdateErr', _, call) \<Rightarrow>
                   if cnpUpdateErr' = None then (Exited None, [call])
                   else (case statusAttempts env ciliumV2Store cnp rev' policyImportErr waitForEPsErr
                                 (Suc numAttempts) cnpUpdateErr'
                         of (exit, calls) \<Rightarrow> (exit, call # Sleep updateWaitDuration # calls))))
      else (Exited cnpUpdateErr, []))"
  by pat_completeness auto
termination
  by (relation "measure (\<lambda>(env, st, cnp, rev', pe, we, n, ue). maxAttempts - n)") auto

declare statusAttempts.simps [simp del]

text \<open>
  What \<open>cnpNodeStatusController\<close> returns, with the place it returns from; \<open>returnedError\<close>
  forgets the place and is the Go result.
\<close>

datatype controller_return =
  ReturnFromStoreErr error
| ReturnCnpUpdateErr error
| ReturnWaitForEPsErr "error option"

fun returnedError :: "controller_return \<Rightarrow> error option" where
  "returnedError (ReturnFromStoreErr e) = Some e"
| "returnedError (ReturnCnpUpdateErr e) = Some e"
| "returnedError (ReturnWaitForEPsErr w) = w"

definition cnpNodeStatusController ::
  "'z K8sEnv_scheme \<Rightarrow> Store \<Rightarrow> CiliumNetworkPolicy \<Rightarrow> 64 word \<Rightarrow> error option
     \<Rightarrow> controller_return \<times> status_call list" where
  "cnpNodeStatusController env ciliumV2Store cnp rev' policyImportErr =
     (let waitForEPsErr = WaitForEndpointsAtPolicyRev env (30 * 1000) rev'
      in case statusAttempts env ciliumV2Store cnp rev' policyImportErr waitForEPsErr 0 None of
           (Returned fromStoreErr, calls) \<Rightarrow>
             (ReturnFromStoreErr fromStoreErr, WaitForEndpoints (30 * 1000) rev' waitForEPsErr # calls)
         | (Exited cnpUpdateErr, calls) \<Rightarrow>
             ((case cnpUpdateErr of
                 Some e \<Rightarrow> ReturnCnpUpdateErr e
               | None \<Rightarrow> ReturnWaitForEPsErr waitForEPsErr),
              WaitForEndpoints (30 * 1000) rev' waitForEPsErr # calls))"

text \<open>In a trace, every failed write is directly followed by a sleep of 200 ms.\<close>

fun sleepsFollowFailures :: "status_call list \<Rightarrow> bool" where
  "sleepsFollowFailures [] = True"
| "sleepsFollowFailures [c] = (\<not> writeFailed c)"
| "sleepsFollowFailures (c # d # cs) =
     (if writeFailed c then d = Sleep 200 \<and> sleepsFollowFailures cs
      else sleepsFollowFailures (d # cs))"

section \<open>The load-balancer tables and the datapath\<close>

subsection \<open>Addresses (package loadbalancer)\<close>

text \<open>
  \<open>net.IP\<close> is a byte slice, nil when empty. \<open>To4\<close> is the standard library's: a 4-byte
  address is IPv4, a 16-byte address that is IPv4-mapped (ten zero bytes, then two bytes
  \<open>0xff\<close>) yields its last four bytes, anything else yields nil.
\<close>

type_synonym IP = "8 word list"

definition To4 :: "IP \<Rightarrow> IP" where
  "To4 ip =
     (if length ip = 4 then ip
      else if length ip = 16 \<and> list_all (\<lambda>b. b = 0) (take 10 ip) \<and> ip ! 10 = 0xff \<and> ip ! 11 = 0xff
      then drop 12 ip
      else [])"

type_synonym L4Type = string
type_synonym ServiceID = "16 word"
type_synonym FEPortName = string

record L4Addr =
  Protocol :: L4Type
  Port :: "16 word"

record FEPort = L4Addr +
  ID :: ServiceID

record L3n4Addr = L4Addr +
  IP :: IP

record L3n4AddrID = L3n4Addr +
  AddrID :: ServiceID

record LBBackEnd = L3n4Addr +
  Weight :: "16 word"

record K8sServiceNamespace =
  ServiceName :: string
  svcNamespace :: string

text \<open>
  Go's maps are association lists with distinct keys here; the order of the list stands
  for the order in which \<open>range\<close> happens to visit the map.
\<close>

record K8sServiceInfo =
  FEIP :: IP
  IsHeadless :: bool
  Ports :: "(FEPortName \<times> FEPort) list"
  siLabels :: "(string \<times> string) list"
  Selector :: "(string \<times> string) list"

record K8sServiceEndpoint =
  BEIPs :: "string list"
  epPorts :: "(FEPortName \<times> L4Addr) list"

text \<open>
  Modelled from the spec: the constructors \<open>NewK8sServiceInfo\<close> and
  \<open>NewK8sServiceEndpoint\<close> of the package \<open>loadbalancer\<close> are not in the source at hand;
  the spec describes a ServiceInfo as frontend IP, headless flag, labels and a mapping of
  port names to frontend ports, an EndpointsInfo as a set of backend IPs and a mapping of
  port names to ports. A new one has no port and no backend.
\<close>

definition NewK8sServiceInfo ::
  "IP \<Rightarrow> bool \<Rightarrow> (string \<times> string) list \<Rightarrow> (string \<times> string) list \<Rightarrow> K8sServiceInfo" where
  "NewK8sServiceInfo ip headless labels selector =
     \<lparr>FEIP = ip, IsHeadless = headless, Ports = [], siLabels = labels, Selector = selector\<rparr>"

definition NewK8sServiceEndpoint :: K8sServiceEndpoint where
  "NewK8sServiceEndpoint = \<lparr>BEIPs = [], epPorts = []\<rparr>"

record K8sTranslator =
  trService :: K8sServiceNamespace
  trEndpoint :: K8sServiceEndpoint
  trRevert :: bool
  trLabels :: "(string \<times> string) list"

subsection \<open>Controllers, caches, calls\<close>

text \<open>
  The \<open>DoFunc\<close> closure of a status controller, by what it captures: it runs
  \<open>cnpNodeStatusController\<close> on these arguments.
\<close>

record ControllerParams =
  doStore :: Store
  doCNP :: CiliumNetworkPolicy
  doRev :: "64 word"
  doPolicyImportErr :: "error option"

definition DoFunc :: "'z K8sEnv_scheme \<Rightarrow> ControllerParams \<Rightarrow> controller_return \<times> status_call list" where
  "DoFunc env p = cnpNodeStatusController env (doStore p) (doCNP p) (doRev p) (doPolicyImportErr p)"

record policyImportMetadata =
  revision :: "64 word"
  policyImportError :: "error option"

record endpointImportMetadata =
  ruleTranslationError :: "error option"

text \<open>
  The calls the daemon's handlers make on its collaborators, and their writes of the policy
  import metadata cache (\<open>importMetadataCache.upsert\<close> and \<open>delete\<close>, by the key written),
  in the order made.
\<close>

datatype call =
  SvcAdd L3n4AddrID "LBBackEnd list" bool
| SvcDeleteByFrontend L3n4Addr
| RevNATDelete ServiceID
| AcquireID L3n4Addr nat "error + L3n4AddrID"
| DeleteID "32 word"
| PolicyAdd "Rule list" bool "64 word" "error option"
| PolicyDelete "string list" "64 word" "error option"
| TranslateRules K8sTranslator "error option"
| TriggerPolicyUpdates bool string
| UpdateController string ControllerParams
| RemoveController string
| ImportMetadataUpsert string policyImportMetadata
| ImportMetadataDelete string

text \<open>
  What the daemon's handlers use from outside this file: configuration, the parsers and
  constructors of the packages \<open>net\<close>, \<open>loadbalancer\<close>, \<open>cilium_v2\<close> and \<open>k8sUtils\<close>, the
  policy repository (of state \<open>'r\<close>) and the service ID allocator. The allocator answers
  from a state of its own: \<open>acquireID\<close> takes the calls made so far.
\<close>

record 'r DaemonEnv = K8sEnv +
  GetObjNamespaceName :: "ObjectMeta \<Rightarrow> string"
  GetControllerName :: "CiliumNetworkPolicy \<Rightarrow> string"
  SpecEquals :: "CiliumNetworkPolicy \<Rightarrow> CiliumNetworkPolicy \<Rightarrow> bool"
  AnnotationsEquals :: "CiliumNetworkPolicy \<Rightarrow> CiliumNetworkPolicy \<Rightarrow> bool"
  PreprocessRules ::
    "Rule list \<Rightarrow> (K8sServiceNamespace \<rightharpoonup> K8sServiceEndpoint)
       \<Rightarrow> (K8sServiceNamespace \<rightharpoonup> K8sServiceInfo) \<Rightarrow> Rule list \<times> error option"
  policyAdd :: "'r \<Rightarrow> Rule list \<Rightarrow> bool \<Rightarrow> (64 word \<times> error option) \<times> 'r"
  policyDelete :: "'r \<Rightarrow> string list \<Rightarrow> (64 word \<times> error option) \<times> 'r"
  translateRules :: "'r \<Rightarrow> K8sTranslator \<Rightarrow> error option \<times> 'r"
  GetPolicyLabels :: "string \<Rightarrow> string \<Rightarrow> string \<Rightarrow> string list"
  ResourceTypeCiliumNetworkPolicy :: string
  disableK8sServices :: bool
  IPv4Disabled :: bool
  IsLBEnabled :: bool
  ParseIP :: "string \<Rightarrow> IP"
  NewFEPort :: "L4Type \<Rightarrow> 16 word \<Rightarrow> error + FEPort"
  NewL4Addr :: "L4Type \<Rightarrow> 16 word \<Rightarrow> error + L4Addr"
  NewL3n4Addr :: "L4Type \<Rightarrow> IP \<Rightarrow> 16 word \<Rightarrow> error + L3n4Addr"
  NewL3n4AddrID :: "L4Type \<Rightarrow> IP \<Rightarrow> 16 word \<Rightarrow> ServiceID \<Rightarrow> error + L3n4AddrID"
  acquireID :: "call list \<Rightarrow> L3n4Addr \<Rightarrow> nat \<Rightarrow> error + L3n4AddrID"
  Equals :: "K8sServiceInfo \<Rightarrow> K8sServiceInfo \<Rightarrow> bool"
  IsExternal :: "K8sServiceInfo \<Rightarrow> bool"

text \<open>
  The state the handlers work on: the daemon's load-balancer tables and policy repository,
  the package-level caches and controller manager, and the calls made so far.
\<close>

record 'r Daemon =
  K8sServices :: "K8sServiceNamespace \<rightharpoonup> K8sServiceInfo"
  K8sEndpoints :: "K8sServiceNamespace \<rightharpoonup> K8sServiceEndpoint"
  K8sIngress :: "K8sServiceNamespace \<rightharpoonup> K8sServiceInfo"
  policy :: 'r
  importMetadataCache :: "string \<rightharpoonup> policyImportMetadata"
  endpointMetadataCache :: "string \<rightharpoonup> endpointImportMetadata"
  k8sCM :: "string \<rightharpoonup> ControllerParams"
  calls :: "call list"

subsection \<open>Installing and removing a service in the datapath\<close>

text \<open>\<open>fmt\<close>'s \<open>%+v\<close> of a \<open>K8sServiceNamespace\<close>.\<close>

definition svcString :: "K8sServiceNamespace \<Rightarrow> string" where
  "svcString svc = ''{ServiceName:'' @ ServiceName svc @ '' Namespace:'' @ svcNamespace svc @ ''}''"

definition areIPsConsistent ::
  "'r DaemonEnv \<Rightarrow> bool \<Rightarrow> bool \<Rightarrow> K8sServiceNamespace \<Rightarrow> K8sServiceEndpoint \<Rightarrow> error option" where
  "areIPsConsistent env ipv4Enabled isSvcIPv4 svc se =
     (if isSvcIPv4 then
        (if \<not> ipv4Enabled then
           Some (errorString (''Received an IPv4 k8s service but IPv4 is disabled in the cilium daemon. Ignoring service ''
                   @ svcString svc))
         else
           (case find (\<lambda>epIP. To4 (ParseIP env epIP) = []) (BEIPs se) of
              Some _ \<Rightarrow>
                Some (errorString (''Not all endpoints IPs are IPv4. Ignoring IPv4 service '' @ svcString svc))
            | None \<Rightarrow> None))
      else
        (case find (\<lambda>epIP. To4 (ParseIP env epIP) \<noteq> []) (BEIPs se) of
           Some _ \<Rightarrow>
             Some (errorString (''Not all endpoints IPs are IPv6. Ignoring IPv6 service '' @ svcString svc))
         | None \<Rightarrow> None))"

definition getUniqPorts :: "(FEPortName \<times> FEPort) list \<Rightarrow> (16 word \<rightharpoonup> bool)" where
  "getUniqPorts svcPorts =
     fold (\<lambda>(_, svcPort) uniqPorts. uniqPorts(Port svcPort \<mapsto> True)) svcPorts Map.empty"

text \<open>The loop of \<open>delK8sSVCs\<close> over the ports of the service.\<close>

fun delK8sSVCs_loop ::
  "'r DaemonEnv \<Rightarrow> IP \<Rightarrow> (FEPortName \<times> FEPort) list \<Rightarrow> (16 word \<rightharpoonup> bool) \<Rightarrow> call list \<Rightarrow> call list" where
  "delK8sSVCs_loop env feip [] repPorts cs = cs"
| "delK8sSVCs_loop env feip ((name, svcPort) # rest) repPorts cs =
     (if repPorts (Port svcPort) \<noteq> Some True then delK8sSVCs_loop env feip rest repPorts cs
      else
        (let repPorts' = repPorts(Port svcPort \<mapsto> False);
             cs' = (if ID svcPort \<noteq> 0 then cs @ [DeleteID (ucast (ID svcPort))] else cs)
         in case NewL3n4Addr env (Protocol svcPort) feip (Port svcPort) of
              Inl err \<Rightarrow> delK8sSVCs_loop env feip rest repPorts' cs'
            | Inr fe \<Rightarrow>
                delK8sSVCs_loop env feip rest repPorts'
                  (cs' @ [SvcDeleteByFrontend fe, RevNATDelete (ID svcPort)])))"

definition delK8sSVCs ::
  "'r DaemonEnv \<Rightarrow> K8sServiceNamespace \<Rightarrow> K8sServiceInfo \<Rightarrow> K8sServiceEndpoint \<Rightarrow> 'r Daemon
     \<Rightarrow> error option \<times> 'r Daemon" where
  "delK8sSVCs env svc svcInfo se d =
     (if disableK8sServices env then (None, d)
      else if IsHeadless svcInfo then (None, d)
      else
        (let isSvcIPv4 = (To4 (FEIP svcInfo) \<noteq> [])
         in case areIPsConsistent env (\<not> IPv4Disabled env) isSvcIPv4 svc se of
              Some err \<Rightarrow> (Some err, d)
            | None \<Rightarrow>
                (None, d\<lparr>calls := delK8sSVCs_loop env (FEIP svcInfo) (Ports svcInfo)
                                     (getUniqPorts (Ports svcInfo)) (calls d)\<rparr>)))"

text \<open>
  One round of the loop of \<open>addK8sSVCs\<close>: the port as the round leaves it (its ID may have
  been allocated), the ports still to represent, the calls. Every \<open>continue\<close> of the source
  ends the round.
\<close>

definition addK8sSVCs_round ::
  "'r DaemonEnv \<Rightarrow> IP \<Rightarrow> K8sServiceEndpoint \<Rightarrow> FEPortName \<Rightarrow> FEPort \<Rightarrow> (16 word \<rightharpoonup> bool) \<Rightarrow> call list
     \<Rightarrow> FEPort \<times> (16 word \<rightharpoonup> bool) \<times> call list" where
  "addK8sSVCs_round env feip se fePortName fePort uniqPorts cs =
     (if uniqPorts (Port fePort) \<noteq> Some True then (fePort, uniqPorts, cs)
      else
        (let k8sBEPort = map_of (epPorts se) fePortName;
             uniqPorts' = uniqPorts(Port fePort \<mapsto> False)
         in case (if ID fePort = 0 then
                    (case NewL3n4Addr env (Protocol fePort) feip (Port fePort) of
                       Inl err \<Rightarrow> Inl cs
                     | Inr feAddr \<Rightarrow>
                         (case acquireID env cs feAddr 0 of
                            Inl err \<Rightarrow> Inl (cs @ [AcquireID feAddr 0 (Inl err)])
                          | Inr feAddrID \<Rightarrow>
                              Inr (fePort\<lparr>ID := AddrID feAddrID\<rparr>,
                                   cs @ [AcquireID feAddr 0 (Inr feAddrID)])))
                  else Inr (fePort, cs))
            of Inl cs' \<Rightarrow> (fePort, uniqPorts', cs')
             | Inr (fePort', cs') \<Rightarrow>
                 (let besValues =
                        (case k8sBEPort of
                           Some p \<Rightarrow>
                             map (\<lambda>epIP. \<lparr>Protocol = Protocol p, Port = Port p,
                                          IP = ParseIP env epIP, Weight = 0\<rparr>) (BEIPs se)
                         | None \<Rightarrow> [])
                  in case NewL3n4AddrID env (Protocol fePort') feip (Port fePort') (ID fePort') of
                       Inl err \<Rightarrow> (fePort', uniqPorts', cs')
                     | Inr fe \<Rightarrow> (fePort', uniqPorts', cs' @ [SvcAdd fe besValues True]))))"

fun addK8sSVCs_loop ::
  "'r DaemonEnv \<Rightarrow> IP \<Rightarrow> K8sServiceEndpoint \<Rightarrow> (FEPortName \<times> FEPort) list \<Rightarrow> (16 word \<rightharpoonup> bool)
     \<Rightarrow> call list \<Rightarrow> (FEPortName \<times> FEPort) list \<times> call list" where
  "addK8sSVCs_loop env feip se [] uniqPorts cs = ([], cs)"
| "addK8sSVCs_loop env feip se ((fePortName, fePort) # rest) uniqPorts cs =
     (case addK8sSVCs_round env feip se fePortName fePort uniqPorts cs of
        (fePort', uniqPorts', cs') \<Rightarrow>
          (case addK8sSVCs_loop env feip se rest uniqPorts' cs' of
             (rest', cs'') \<Rightarrow> ((fePortName, fePort') # rest', cs'')))"

text \<open>
  \<open>svcInfo\<close> is a pointer in the source and the loop writes the allocated IDs through it:
  the model returns the service as the call leaves it, and the caller stores it back.
\<close>

definition addK8sSVCs ::
  "'r DaemonEnv \<Rightarrow> K8sServiceNamespace \<Rightarrow> K8sServiceInfo \<Rightarrow> K8sServiceEndpoint \<Rightarrow> 'r Daemon
     \<Rightarrow> error option \<times> K8sServiceInfo \<times> 'r Daemon" where
  "addK8sSVCs env svc svcInfo se d =
     (if disableK8sServices env then (None, svcInfo, d)
      else if IsHeadless svcInfo then (None, svcInfo, d)
      else
        (let isSvcIPv4 = (To4 (FEIP svcInfo) \<noteq> [])
         in case areIPsConsistent env (\<not> IPv4Disabled env) isSvcIPv4 svc se of
              Some err \<Rightarrow> (Some err, svcInfo, d)
            | None \<Rightarrow>
                (case addK8sSVCs_loop env (FEIP svcInfo) se (Ports svcInfo)
                        (getUniqPorts (Ports svcInfo)) (calls d) of
                   (ports', cs') \<Rightarrow> (None, svcInfo\<lparr>Ports := ports'\<rparr>, d\<lparr>calls := cs'\<rparr>))))"

subsection \<open>Joining services and endpoints\<close>

definition syncLB_deleteSN ::
  "'r DaemonEnv \<Rightarrow> K8sServiceNamespace \<Rightarrow> 'r Daemon \<Rightarrow> error option \<times> 'r Daemon" where
  "syncLB_deleteSN env delSN d =
     (case K8sServices d delSN of
        None \<Rightarrow> (None, d\<lparr>K8sEndpoints := (K8sEndpoints d)(delSN := None)\<rparr>)
      | Some svc \<Rightarrow>
          (case K8sEndpoints d delSN of
             None \<Rightarrow> (None, d\<lparr>K8sServices := (K8sServices d)(delSN := None)\<rparr>)
           | Some endpoint \<Rightarrow>
               (case delK8sSVCs env delSN svc endpoint d of
                  (Some err, d') \<Rightarrow> (Some err, d')
                | (None, d') \<Rightarrow>
                    (None, d'\<lparr>K8sServices := (K8sServices d')(delSN := None),
                              K8sEndpoints := (K8sEndpoints d')(delSN := None)\<rparr>))))"

definition syncLB_addSN ::
  "'r DaemonEnv \<Rightarrow> K8sServiceNamespace \<Rightarrow> 'r Daemon \<Rightarrow> error option \<times> 'r Daemon" where
  "syncLB_addSN env addSN d =
     (case K8sServices d addSN of
        None \<Rightarrow> (None, d)
      | Some svcInfo \<Rightarrow>
          (case K8sEndpoints d addSN of
             None \<Rightarrow> (None, d)
           | Some endpoint \<Rightarrow>
               (case addK8sSVCs env addSN svcInfo endpoint d of
                  (err, svcInfo', d') \<Rightarrow>
                    (err, d'\<lparr>K8sServices := (K8sServices d')(addSN \<mapsto> svcInfo')\<rparr>))))"

definition syncLB ::
  "'r DaemonEnv \<Rightarrow> K8sServiceNamespace option \<Rightarrow> K8sServiceNamespace option
     \<Rightarrow> K8sServiceNamespace option \<Rightarrow> 'r Daemon \<Rightarrow> error option \<times> 'r Daemon" where
  "syncLB env newSN modSN delSN d =
     (case delSN of
        Some sn \<Rightarrow> syncLB_deleteSN env sn d
      | None \<Rightarrow>
          (case modSN of
             Some sn \<Rightarrow> syncLB_addSN env sn d
           | None \<Rightarrow>
               (case newSN of
                  Some sn \<Rightarrow> syncLB_addSN env sn d
                | None \<Rightarrow> (None, d))))"

definition syncExternalLB_deleteSN ::
  "'r DaemonEnv \<Rightarrow> K8sServiceNamespace \<Rightarrow> 'r Daemon \<Rightarrow> error option \<times> 'r Daemon" where
  "syncExternalLB_deleteSN env delSN d =
     (case K8sIngress d delSN of
        None \<Rightarrow> (None, d)
      | Some ingSvc \<Rightarrow>
          (case K8sEndpoints d delSN of
             None \<Rightarrow> (None, d)
           | Some endpoint \<Rightarrow>
               (case delK8sSVCs env delSN ingSvc endpoint d of
                  (Some err, d') \<Rightarrow> (Some err, d')
                | (None, d') \<Rightarrow> (None, d'\<lparr>K8sServices := (K8sServices d')(delSN := None)\<rparr>))))"

definition syncExternalLB_addSN ::
  "'r DaemonEnv \<Rightarrow> K8sServiceNamespace \<Rightarrow> 'r Daemon \<Rightarrow> error option \<times> 'r Daemon" where
  "syncExternalLB_addSN env addSN d =
     (case K8sIngress d addSN of
        None \<Rightarrow> (None, d)
      | Some ingressSvcInfo \<Rightarrow>
          (case K8sEndpoints d addSN of
             None \<Rightarrow> (None, d)
           | Some k8sEP \<Rightarrow>
               (case addK8sSVCs env addSN ingressSvcInfo k8sEP d of
                  (err, ingressSvcInfo', d') \<Rightarrow>
                    (err, d'\<lparr>K8sIngress := (K8sIngress d')(addSN \<mapsto> ingressSvcInfo')\<rparr>))))"

definition syncExternalLB ::
  "'r DaemonEnv \<Rightarrow> K8sServiceNamespace option \<Rightarrow> K8sServiceNamespace option
     \<Rightarrow> K8sServiceNamespace option \<Rightarrow> 'r Daemon \<Rightarrow> error option \<times> 'r Daemon" where
  "syncExternalLB env newSN modSN delSN d =
     (case delSN of
        Some sn \<Rightarrow> syncExternalLB_deleteSN env sn d
      | None \<Rightarrow>
          (case modSN of
             Some sn \<Rightarrow> syncExternalLB_addSN env sn d
           | None \<Rightarrow>
               (case newSN of
                  Some sn \<Rightarrow> syncExternalLB_addSN env sn d
                | None \<Rightarrow> (None, d))))"

subsection \<open>Service events\<close>

text \<open>
  \<open>strings.ToLower\<close>, on the ASCII letters: that is all the comparison with \<open>none\<close> can see.
\<close>

definition toLowerChar :: "char \<Rightarrow> char" where
  "toLowerChar c =
     (if 65 \<le> (of_char c :: nat) \<and> (of_char c :: nat) \<le> 90 then char_of (of_char c + (32::nat)) else c)"

definition ToLower :: "string \<Rightarrow> string" where
  "ToLower s = map toLowerChar s"

definition parseSvcV1 :: "'r DaemonEnv \<Rightarrow> Service \<Rightarrow> K8sServiceInfo option" where
  "parseSvcV1 env svc =
     (if svcType svc = ''ClusterIP'' \<or> svcType svc = ''NodePort'' \<or> svcType svc = ''LoadBalancer'' then
        (if ClusterIP svc = [] then None
         else
           (let clusterIP = ParseIP env (ClusterIP svc);
                headless = (ToLower (ClusterIP svc) = ''none'');
                newSI = NewK8sServiceInfo clusterIP headless (Labels (svcMeta svc)) (svcSelector svc)
            in Some (newSI\<lparr>Ports :=
                 fold (\<lambda>port ports.
                         case NewFEPort env (spProtocol port) (ucast (spPort port)) of
                           Inl err \<Rightarrow> ports
                         | Inr p \<Rightarrow>
                             (if map_of ports (spName port) = None then ports @ [(spName port, p)]
                              else ports))
                   (specPorts svc) (Ports newSI)\<rparr>)))
      else if svcType svc = ''ExternalName'' then None
      else None)"

definition addK8sServiceV1 :: "'r DaemonEnv \<Rightarrow> Service \<Rightarrow> 'r Daemon \<Rightarrow> error option \<times> 'r Daemon" where
  "addK8sServiceV1 env svc d =
     (case parseSvcV1 env svc of
        None \<Rightarrow> (None, d)
      | Some newSI \<Rightarrow>
          (let svcns = \<lparr>ServiceName = Name (svcMeta svc), svcNamespace = Namespace (svcMeta svc)\<rparr>
           in if (case K8sServices d svcns of
                    Some oldSI \<Rightarrow> Equals env oldSI newSI
                  | None \<Rightarrow> False)
              then (None, d)
              else syncLB env (Some svcns) None None
                     (d\<lparr>K8sServices := (K8sServices d)(svcns \<mapsto> newSI)\<rparr>)))"

definition updateK8sServiceV1 ::
  "'r DaemonEnv \<Rightarrow> Service \<Rightarrow> Service \<Rightarrow> 'r Daemon \<Rightarrow> error option \<times> 'r Daemon" where
  "updateK8sServiceV1 env oldSvc newSvc d = addK8sServiceV1 env newSvc d"

definition deleteK8sServiceV1 :: "'r DaemonEnv \<Rightarrow> Service \<Rightarrow> 'r Daemon \<Rightarrow> error option \<times> 'r Daemon" where
  "deleteK8sServiceV1 env svc d =
     (let svcns = \<lparr>ServiceName = Name (svcMeta svc), svcNamespace = Namespace (svcMeta svc)\<rparr>
      in syncLB env None None (Some svcns) d)"

subsection \<open>Endpoints events\<close>

text \<open>The cache methods return at once on a nil pointer: the object is an option.\<close>

definition endpointImportMetadataCache_upsert ::
  "'r DaemonEnv \<Rightarrow> Endpoints option \<Rightarrow> error option \<Rightarrow> (string \<rightharpoonup> endpointImportMetadata)
     \<Rightarrow> (string \<rightharpoonup> endpointImportMetadata)" where
  "endpointImportMetadataCache_upsert env ep ruleTranslationErr r =
     (case ep of
        None \<Rightarrow> r
      | Some e \<Rightarrow> r(GetObjNamespaceName env (epMeta e) \<mapsto> \<lparr>ruleTranslationError = ruleTranslationErr\<rparr>))"

definition endpointImportMetadataCache_delete ::
  "'r DaemonEnv \<Rightarrow> Endpoints option \<Rightarrow> (string \<rightharpoonup> endpointImportMetadata)
     \<Rightarrow> (string \<rightharpoonup> endpointImportMetadata)" where
  "endpointImportMetadataCache_delete env ep r =
     (case ep of
        None \<Rightarrow> r
      | Some e \<Rightarrow> r(GetObjNamespaceName env (epMeta e) := None))"

definition endpointImportMetadataCache_get ::
  "'r DaemonEnv \<Rightarrow> Endpoints option \<Rightarrow> (string \<rightharpoonup> endpointImportMetadata)
     \<Rightarrow> endpointImportMetadata \<times> bool" where
  "endpointImportMetadataCache_get env ep r =
     (case ep of
        None \<Rightarrow> (\<lparr>ruleTranslationError = None\<rparr>, False)
      | Some e \<Rightarrow>
          (case r (GetObjNamespaceName env (epMeta e)) of
             Some endpointImportMeta \<Rightarrow> (endpointImportMeta, True)
           | None \<Rightarrow> (\<lparr>ruleTranslationError = None\<rparr>, False)))"

definition parseK8sEPv1 :: "'r DaemonEnv \<Rightarrow> Endpoints \<Rightarrow> K8sServiceEndpoint" where
  "parseK8sEPv1 env ep =
     fold (\<lambda>sub newSvcEP.
             fold (\<lambda>port e.
                     case NewL4Addr env (eptProtocol port) (ucast (eptPort port)) of
                       Inl err \<Rightarrow> e
                     | Inr lbPort \<Rightarrow> e\<lparr>epPorts := AList.update (eptName port) lbPort (epPorts e)\<rparr>)
               (subsetPorts sub)
               (fold (\<lambda>addr e. e\<lparr>BEIPs := (if addr \<in> set (BEIPs e) then BEIPs e else BEIPs e @ [addr])\<rparr>)
                  (Addresses sub) newSvcEP))
       (Subsets ep) NewK8sServiceEndpoint"

text \<open>\<open>reflect.DeepEqual\<close> on two endpoints: their maps hold the same entries.\<close>

definition DeepEqual :: "K8sServiceEndpoint \<Rightarrow> K8sServiceEndpoint \<Rightarrow> bool" where
  "DeepEqual a b = (set (BEIPs a) = set (BEIPs b) \<and> set (epPorts a) = set (epPorts b))"

definition addK8sEndpointV1 :: "'r DaemonEnv \<Rightarrow> Endpoints \<Rightarrow> 'r Daemon \<Rightarrow> error option \<times> 'r Daemon" where
  "addK8sEndpointV1 env ep d =
     (let svcns = \<lparr>ServiceName = Name (epMeta ep), svcNamespace = Namespace (epMeta ep)\<rparr>;
          newSvcEP = parseK8sEPv1 env ep;
          endpointsEqual =
            (case K8sEndpoints d svcns of
               Some storedK8sEndpoint \<Rightarrow> DeepEqual storedK8sEndpoint newSvcEP
             | None \<Rightarrow> False);
          d1 = d\<lparr>K8sEndpoints := (K8sEndpoints d)(svcns \<mapsto> newSvcEP)\<rparr>;
          d2 = snd (syncLB env (Some svcns) None None d1)
      in case (if IsLBEnabled env then syncExternalLB env (Some svcns) None None d2 else (None, d2)) of
           (Some err, d3) \<Rightarrow> (Some err, d3)
         | (None, d3) \<Rightarrow>
             (case K8sServices d3 svcns of
                None \<Rightarrow> (None, d3)
              | Some svc \<Rightarrow>
                  if IsExternal env svc then
                    (case endpointImportMetadataCache_get env (Some ep) (endpointMetadataCache d3) of
                       (serviceImportMeta, cacheOK) \<Rightarrow>
                         if \<not> cacheOK \<or> (cacheOK \<and> ruleTranslationError serviceImportMeta \<noteq> None) then
                           (let translator = \<lparr>trService = svcns, trEndpoint = newSvcEP, trRevert = False,
                                              trLabels = siLabels svc\<rparr>
                            in case translateRules env (policy d3) translator of
                                 (err, policy') \<Rightarrow>
                                   (let d4 = d3\<lparr>policy := policy',
                                                endpointMetadataCache :=
                                                  endpointImportMetadataCache_upsert env (Some ep) err
                                                    (endpointMetadataCache d3),
                                                calls := calls d3 @ [TranslateRules translator err]\<rparr>
                                    in if err \<noteq> None then (err, d4)
                                       else (None, d4\<lparr>calls := calls d4 @
                                               [TriggerPolicyUpdates True ''Kubernetes service endpoint added'']\<rparr>)))
                         else if ruleTranslationError serviceImportMeta = None then
                           (if endpointsEqual then (None, d3)
                            else (None, d3\<lparr>calls := calls d3 @
                                    [TriggerPolicyUpdates True ''Kubernetes service endpoint updated'']\<rparr>))
                         else (None, d3))
                  else (None, d3)))"

definition updateK8sEndpointV1 ::
  "'r DaemonEnv \<Rightarrow> Endpoints \<Rightarrow> Endpoints \<Rightarrow> 'r Daemon \<Rightarrow> error option \<times> 'r Daemon" where
  "updateK8sEndpointV1 env oldEP newEP d = addK8sEndpointV1 env newEP d"

definition deleteK8sEndpointV1 :: "'r DaemonEnv \<Rightarrow> Endpoints \<Rightarrow> 'r Daemon \<Rightarrow> error option \<times> 'r Daemon" where
  "deleteK8sEndpointV1 env ep d =
     (let svcns = \<lparr>ServiceName = Name (epMeta ep), svcNamespace = Namespace (epMeta ep)\<rparr>;
          d1 = (case K8sEndpoints d svcns of
                  None \<Rightarrow> d
                | Some endpoint \<Rightarrow>
                    (case K8sServices d svcns of
                       None \<Rightarrow> d
                     | Some svc \<Rightarrow>
                         if IsExternal env svc then
                           (let translator = \<lparr>trService = svcns, trEndpoint = endpoint, trRevert = True,
                                              trLabels = siLabels svc\<rparr>
                            in case translateRules env (policy d) translator of
                                 (err, policy') \<Rightarrow>
                                   (let d' = d\<lparr>policy := policy',
                                               calls := calls d @ [TranslateRules translator err]\<rparr>
                                    in if err \<noteq> None then d'
                                       else d'\<lparr>calls := calls d' @
                                              [TriggerPolicyUpdates True ''Kubernetes service endpoint deleted'']\<rparr>))
                         else d))
      in case syncLB env None None (Some svcns) d1 of
           (syncErr, d2) \<Rightarrow>
             (case (if IsLBEnabled env then syncExternalLB env None None (Some svcns) d2 else (None, d2)) of
                (Some err, d3) \<Rightarrow> (Some err, d3)
              | (None, d3) \<Rightarrow>
                  (syncErr, d3\<lparr>endpointMetadataCache :=
                              endpointImportMetadataCache_delete env (Some ep) (endpointMetadataCache d3)\<rparr>)))"

subsection \<open>CiliumNetworkPolicy events\<close>

definition ruleImportMetadataCache_upsert ::
  "'r DaemonEnv \<Rightarrow> CiliumNetworkPolicy option \<Rightarrow> 64 word \<Rightarrow> error option
     \<Rightarrow> (string \<rightharpoonup> policyImportMetadata) \<Rightarrow> (string \<rightharpoonup> policyImportMetadata)" where
  "ruleImportMetadataCache_upsert env cnp rev' importErr r =
     (case cnp of
        None \<Rightarrow> r
      | Some c \<Rightarrow>
          (let meta = \<lparr>revision = rev', policyImportError = importErr\<rparr>;
               podNSName = GetObjNamespaceName env (cnpMeta c)
           in r(podNSName \<mapsto> meta)))"

definition ruleImportMetadataCache_delete ::
  "'r DaemonEnv \<Rightarrow> CiliumNetworkPolicy option \<Rightarrow> (string \<rightharpoonup> policyImportMetadata)
     \<Rightarrow> (string \<rightharpoonup> policyImportMetadata)" where
  "ruleImportMetadataCache_delete env cnp r =
     (case cnp of
        None \<Rightarrow> r
      | Some c \<Rightarrow> r(GetObjNamespaceName env (cnpMeta c) := None))"

definition ruleImportMetadataCache_get ::
  "'r DaemonEnv \<Rightarrow> CiliumNetworkPolicy option \<Rightarrow> (string \<rightharpoonup> policyImportMetadata)
     \<Rightarrow> policyImportMetadata \<times> bool" where
  "ruleImportMetadataCache_get env cnp r =
     (case cnp of
        None \<Rightarrow> (\<lparr>revision = 0, policyImportError = None\<rparr>, False)
      | Some c \<Rightarrow>
          (case r (GetObjNamespaceName env (cnpMeta c)) of
             Some policyImportMeta \<Rightarrow> (policyImportMeta, True)
           | None \<Rightarrow> (\<lparr>revision = 0, policyImportError = None\<rparr>, False)))"

text \<open>
  Modelled from the spec: the controller manager (package \<open>controller\<close>) is not in the
  source at hand. The spec has it hold "a named set of long-lived reconciliation tasks, one
  per policy, restartable and replaceable", "allows replacing the task body on each event,
  and cancels tasks on delete": a table from names to task bodies. Removing a name that
  is not there is an error, which the handlers only log.
\<close>

definition k8sCM_UpdateController :: "string \<Rightarrow> ControllerParams \<Rightarrow> 'r Daemon \<Rightarrow> 'r Daemon" where
  "k8sCM_UpdateController name params d =
     d\<lparr>k8sCM := (k8sCM d)(name \<mapsto> params), calls := calls d @ [UpdateController name params]\<rparr>"

definition k8sCM_RemoveController :: "string \<Rightarrow> 'r Daemon \<Rightarrow> error option \<times> 'r Daemon" where
  "k8sCM_RemoveController name d =
     ((if k8sCM d name = None then Some (errorString (''unable to find controller '' @ name)) else None),
      d\<lparr>k8sCM := (k8sCM d)(name := None), calls := calls d @ [RemoveController name]\<rparr>)"

definition updateCiliumNetworkPolicyV2AnnotationsOnly ::
  "'r DaemonEnv \<Rightarrow> Store \<Rightarrow> CiliumNetworkPolicy \<Rightarrow> 'r Daemon \<Rightarrow> 'r Daemon" where
  "updateCiliumNetworkPolicyV2AnnotationsOnly env ciliumV2Store cnp d =
     (let ctrlName = GetControllerName env cnp;
          meta = fst (ruleImportMetadataCache_get env (Some cnp) (importMetadataCache d))
      in k8sCM_UpdateController ctrlName
           \<lparr>doStore = ciliumV2Store, doCNP = cnp, doRev = revision meta,
            doPolicyImportErr = policyImportError meta\<rparr> d)"

definition addCiliumNetworkPolicyV2 ::
  "'r DaemonEnv \<Rightarrow> Store \<Rightarrow> CiliumNetworkPolicy \<Rightarrow> 'r Daemon \<Rightarrow> error option \<times> 'r Daemon" where
  "addCiliumNetworkPolicyV2 env ciliumV2Store cnp d =
     (case (case Parse env cnp of
              Inl err \<Rightarrow> (0, Some err, d)
            | Inr rules \<Rightarrow>
                if length rules > 0 then
                  (case PreprocessRules env rules (K8sEndpoints d) (K8sServices d) of
                     (rules', Some err) \<Rightarrow> (0, Some err, d)
                   | (rules', None) \<Rightarrow>
                       (case policyAdd env (policy d) rules' True of
                          ((rev', err), policy') \<Rightarrow>
                            (rev', err,
                             d\<lparr>policy := policy', calls := calls d @ [PolicyAdd rules' True rev' err]\<rparr>)))
                else (0, None, d))
      of (rev', policyImportErr, d1) \<Rightarrow>
        (let d2 = d1\<lparr>importMetadataCache :=
                       ruleImportMetadataCache_upsert env (Some cnp) rev' policyImportErr
                         (importMetadataCache d1),
                     calls := calls d1 @
                       [ImportMetadataUpsert (GetObjNamespaceName env (cnpMeta cnp))
                          \<lparr>revision = rev', policyImportError = policyImportErr\<rparr>]\<rparr>;
             ctrlName = GetControllerName env cnp
         in (policyImportErr,
             k8sCM_UpdateController ctrlName
               \<lparr>doStore = ciliumV2Store, doCNP = cnp, doRev = rev',
                doPolicyImportErr = policyImportErr\<rparr> d2)))"

definition deleteCiliumNetworkPolicyV2 ::
  "'r DaemonEnv \<Rightarrow> CiliumNetworkPolicy \<Rightarrow> 'r Daemon \<Rightarrow> error option \<times> 'r Daemon" where
  "deleteCiliumNetworkPolicyV2 env cnp d =
     (let d1 = d\<lparr>importMetadataCache :=
                   ruleImportMetadataCache_delete env (Some cnp) (importMetadataCache d),
                 calls := calls d @ [ImportMetadataDelete (GetObjNamespaceName env (cnpMeta cnp))]\<rparr>;
          ctrlName = GetControllerName env cnp;
          d2 = snd (k8sCM_RemoveController ctrlName d1);
          labels = GetPolicyLabels env (Namespace (cnpMeta cnp)) (Name (cnpMeta cnp))
                     (ResourceTypeCiliumNetworkPolicy env)
      in case policyDelete env (policy d2) labels of
           ((rev', err), policy') \<Rightarrow>
             (err, d2\<lparr>policy := policy', calls := calls d2 @ [PolicyDelete labels rev' err]\<rparr>))"

definition updateCiliumNetworkPolicyV2 ::
  "'r DaemonEnv \<Rightarrow> Store \<Rightarrow> CiliumNetworkPolicy \<Rightarrow> CiliumNetworkPolicy \<Rightarrow> 'r Daemon
     \<Rightarrow> error option \<times> 'r Daemon" where
  "updateCiliumNetworkPolicyV2 env ciliumV2Store oldRuleCpy newRuleCpy d =
     (case Parse env oldRuleCpy of
        Inl err \<Rightarrow> (Some err, d)
      | Inr _ \<Rightarrow>
          (case Parse env newRuleCpy of
             Inl err \<Rightarrow> (Some err, d)
           | Inr _ \<Rightarrow>
               if SpecEquals env oldRuleCpy newRuleCpy then
                 (if \<not> AnnotationsEquals env oldRuleCpy newRuleCpy then
                    (let oldCtrlName = GetControllerName env oldRuleCpy;
                         newCtrlName = GetControllerName env newRuleCpy;
                         d1 = (if oldCtrlName \<noteq> newCtrlName
                               then snd (k8sCM_RemoveController oldCtrlName d) else d)
                     in (None, updateCiliumNetworkPolicyV2AnnotationsOnly env ciliumV2Store newRuleCpy d1))
                  else (None, d))
               else addCiliumNetworkPolicyV2 env ciliumV2Store newRuleCpy d))"

subsection \<open>The equality predicates registered for policies, services and endpoints\<close>

text \<open>
  \<open>reflect.DeepEqual\<close> on the specs of two policies and on the subsets of two endpoints is
  equality of the values. \<open>equalV1Services\<close> builds the two services without their ports and
  asks \<open>K8sServiceInfo.Equals\<close>.
\<close>

definition equalV2CNP :: "object \<Rightarrow> object \<Rightarrow> string + bool" where
  "equalV2CNP o1 o2 =
     (case o1 of
        CNPObj cnp1 \<Rightarrow>
          (case o2 of
             CNPObj cnp2 \<Rightarrow>
               Inr (Name (cnpMeta cnp1) = Name (cnpMeta cnp2)
                    \<and> Namespace (cnpMeta cnp1) = Namespace (cnpMeta cnp2)
                    \<and> Spec cnp1 = Spec cnp2
                    \<and> Specs cnp1 = Specs cnp2)
           | _ \<Rightarrow> Inl (TypeOf o2))
      | _ \<Rightarrow> Inl (TypeOf o1))"

definition equalV1Services :: "'r DaemonEnv \<Rightarrow> object \<Rightarrow> object \<Rightarrow> string + bool" where
  "equalV1Services env o1 o2 =
     (case o1 of
        ServiceObj svc1 \<Rightarrow>
          (case o2 of
             ServiceObj svc2 \<Rightarrow>
               (let si1 = NewK8sServiceInfo (ParseIP env (ClusterIP svc1))
                            (ToLower (ClusterIP svc1) = ''none'') (Labels (svcMeta svc1)) (svcSelector svc1);
                    si2 = NewK8sServiceInfo (ParseIP env (ClusterIP svc2))
                            (ToLower (ClusterIP svc2) = ''none'') (Labels (svcMeta svc2)) (svcSelector svc2)
                in Inr (Equals env si1 si2))
           | _ \<Rightarrow> Inl (TypeOf o2))
      | _ \<Rightarrow> Inl (TypeOf o1))"

definition equalV1Endpoints :: "object \<Rightarrow> object \<Rightarrow> string + bool" where
  "equalV1Endpoints o1 o2 =
     (case o1 of
        EndpointsObj ep1 \<Rightarrow>
          (case o2 of
             EndpointsObj ep2 \<Rightarrow>
               Inr (Name (epMeta ep1) = Name (epMeta ep2)
                    \<and> Namespace (epMeta ep1) = Namespace (epMeta ep2)
                    \<and> Subsets ep1 = Subsets ep2)
           | _ \<Rightarrow> Inl (TypeOf o2))
      | _ \<Rightarrow> Inl (TypeOf o1))"

subsection \<open>The events the controllers deliver\<close>

text \<open>
  Each controller hands an event to the handler registered for it in \<open>EnableK8sWatcher\<close>;
  the wrapper counts the handler's error in a metric and drops it. One store, the
  informer's, is passed to every CiliumNetworkPolicy handler. An update reaches its
  handler when the equality predicate registered for the type of the object does not
  judge the two versions equal; an update that is not delivered changes nothing. A run
  takes the events one after the other, each handler running to its end.
\<close>

datatype event =
  CNPAdd CiliumNetworkPolicy
| CNPUpdate CiliumNetworkPolicy CiliumNetworkPolicy
| CNPDelete CiliumNetworkPolicy
| ServiceAdd Service
| ServiceUpdate Service Service
| ServiceDelete Service
| EndpointsAdd Endpoints
| EndpointsUpdate Endpoints Endpoints
| EndpointsDelete Endpoints

fun delivered :: "'r DaemonEnv \<Rightarrow> event \<Rightarrow> bool" where
  "delivered env (CNPUpdate old new) = updateIsDelivered equalV2CNP (CNPObj old) (CNPObj new)"
| "delivered env (ServiceUpdate old new) =
     updateIsDelivered (equalV1Services env) (ServiceObj old) (ServiceObj new)"
| "delivered env (EndpointsUpdate old new) =
     updateIsDelivered equalV1Endpoints (EndpointsObj old) (EndpointsObj new)"
| "delivered env _ = True"

fun handler :: "'r DaemonEnv \<Rightarrow> Store \<Rightarrow> event \<Rightarrow> 'r Daemon \<Rightarrow> 'r Daemon" where
  "handler env cnpStore (CNPAdd i) d = snd (addCiliumNetworkPolicyV2 env cnpStore i d)"
| "handler env cnpStore (CNPUpdate old new) d = snd (updateCiliumNetworkPolicyV2 env cnpStore old new d)"
| "handler env cnpStore (CNPDelete i) d = snd (deleteCiliumNetworkPolicyV2 env i d)"
| "handler env cnpStore (ServiceAdd i) d = snd (addK8sServiceV1 env i d)"
| "handler env cnpStore (ServiceUpdate old new) d = snd (updateK8sServiceV1 env old new d)"
| "handler env cnpStore (ServiceDelete i) d = snd (deleteK8sServiceV1 env i d)"
| "handler env cnpStore (EndpointsAdd i) d = snd (addK8sEndpointV1 env i d)"
| "handler env cnpStore (EndpointsUpdate old new) d = snd (updateK8sEndpointV1 env old new d)"
| "handler env cnpStore (EndpointsDelete i) d = snd (deleteK8sEndpointV1 env i d)"

definition handleEvent :: "'r DaemonEnv \<Rightarrow> Store \<Rightarrow> event \<Rightarrow> 'r Daemon \<Rightarrow> 'r Daemon" where
  "handleEvent env cnpStore ev d = (if delivered env ev then handler env cnpStore ev d else d)"

definition run :: "'r DaemonEnv \<Rightarrow> Store \<Rightarrow> event list \<Rightarrow> 'r Daemon \<Rightarrow> 'r Daemon" where
  "run env cnpStore evs d = fold (handleEvent env cnpStore) evs d"

section \<open>The vocabulary of the properties\<close>

text \<open>
  The families of the addresses of a service differ: the family of some backend is not
  that of the frontend, or the frontend is IPv4 while IPv4 is disabled (IPv6 is never
  disabled in this configuration). An address is IPv4 when \<open>To4\<close> does not yield nil.
\<close>

definition familiesDiffer :: "'r DaemonEnv \<Rightarrow> K8sServiceInfo \<Rightarrow> K8sServiceEndpoint \<Rightarrow> bool" where
  "familiesDiffer env svcInfo se =
     (list_ex (\<lambda>epIP. (To4 (ParseIP env epIP) \<noteq> []) \<noteq> (To4 (FEIP svcInfo) \<noteq> [])) (BEIPs se)
      \<or> (To4 (FEIP svcInfo) \<noteq> [] \<and> IPv4Disabled env))"





text \<open>
  Modelled from the spec: the service map of the datapath (\<open>svcAdd\<close>,
  \<open>svcDeleteByFrontend\<close>) is not in the source at hand. The spec has \<open>svcAdd\<close> "upsert
  (feAddr, [backends], addRevNAT=true) into the service map" and the uninstall "delete
  datapath entries": the frontends that have an entry after a trace of calls are those
  added and not deleted since.
\<close>

fun datapathStep :: "call \<Rightarrow> L3n4Addr list \<Rightarrow> L3n4Addr list" where
  "datapathStep (SvcAdd fe backends addRevNAT) m =
     List.insert \<lparr>Protocol = Protocol fe, Port = Port fe, IP = IP fe\<rparr> m"
| "datapathStep (SvcDeleteByFrontend fe) m = removeAll fe m"
| "datapathStep _ m = m"

definition datapath :: "call list \<Rightarrow> L3n4Addr list" where
  "datapath cs = fold datapathStep cs []"

text \<open>
  The ports that the loops of \<open>addK8sSVCs\<close> and \<open>delK8sSVCs\<close> work on: the first port of
  every port number, in the order of the ports. What \<open>delK8sSVCs\<close> has to call for one of
  them.
\<close>

fun representatives :: "(FEPortName \<times> FEPort) list \<Rightarrow> FEPort list" where
  "representatives [] = []"
| "representatives ((name, p) # rest) =
     p # representatives (filter (\<lambda>(_, q). Port q \<noteq> Port p) rest)"

definition portDeletion :: "'r DaemonEnv \<Rightarrow> IP \<Rightarrow> FEPort \<Rightarrow> call list" where
  "portDeletion env feip p =
     (if ID p \<noteq> 0 then [DeleteID (ucast (ID p))] else [])
     @ (case NewL3n4Addr env (Protocol p) feip (Port p) of
          Inl err \<Rightarrow> []
        | Inr fe \<Rightarrow> [SvcDeleteByFrontend fe, RevNATDelete (ID p)])"


section \<open>Concrete inputs\<close>

text \<open>
  An API server that answers the first four status writes with a conflict and the fifth
  with another error, a store that holds the policy, and endpoints that do not reach the
  revision in time.
\<close>

definition conflictEnv :: K8sEnv where
  "conflictEnv =
     \<lparr>nodeGetName = ''node-1'', NewTimestamp = (\<lambda>n. 1000 + n), ExtractNamespace = Namespace,
      updateStatusVerCheck = True,
      clientUpdateStatus =
        (\<lambda>n ns c. if n < 4 then Some (errorString ''conflict'') else Some (errorString ''gone'')),
      clientUpdate = (\<lambda>n ns c. Some (errorString ''conflict'')),
      Parse = (\<lambda>c. Inr []),
      WaitForEndpointsAtPolicyRev = (\<lambda>t r. Some (errorString ''deadline exceeded''))\<rparr>"

definition policyP1 :: CiliumNetworkPolicy where
  "policyP1 =
     \<lparr>cnpMeta = \<lparr>Name = ''p1'', Namespace = ''app'', Labels = [], Annotations = [(''a'', ''1'')]\<rparr>,
      Spec = Some ''rule'', Specs = [], StatusNodes = []\<rparr>"

definition cachedStore :: Store where
  "cachedStore = (\<lambda>n c. Inr (Some (CNPObj c)))"

text \<open>
  A daemon with IPv4 enabled and no ingress load balancing, whose collaborators accept
  everything: the allocator hands out the ID \<open>sid\<close>, the policy repository answers
  revision 42, a policy parses into the rules of its \<open>Spec\<close> and \<open>Specs\<close> when it has a name
  and none of them is empty. \<open>ParseIP\<close> knows the addresses of the scenarios: IPv4
  addresses come in their 16-byte form. Two services are \<open>Equals\<close> when their frontend
  address, headless flag, labels and selector agree.
\<close>

definition v4InV6 :: "8 word \<Rightarrow> 8 word \<Rightarrow> 8 word \<Rightarrow> 8 word \<Rightarrow> IP" where
  "v4InV6 a b c d = [0, 0, 0, 0, 0, 0, 0, 0, 0, 0, 0xff, 0xff, a, b, c, d]"

definition uniqueLocal1 :: IP where
  "uniqueLocal1 = [0xfd, 0, 0, 0, 0, 0, 0, 0, 0, 0, 0, 0, 0, 0, 0, 1]"

definition scenarioEnv :: "bool \<Rightarrow> ServiceID \<Rightarrow> unit DaemonEnv" where
  "scenarioEnv disabled sid =
     \<lparr>nodeGetName = ''node-1'', NewTimestamp = (\<lambda>n. 1000 + n), ExtractNamespace = Namespace,
      updateStatusVerCheck = True,
      clientUpdateStatus = (\<lambda>n ns c. None),
      clientUpdate = (\<lambda>n ns c. None),
      Parse = (\<lambda>c. if Name (cnpMeta c) = [] then Inl (errorString ''CiliumNetworkPolicy must have name'')
                    else if [] \<in> set ((case Spec c of None \<Rightarrow> [] | Some r \<Rightarrow> [r]) @ Specs c)
                    then Inl (errorString ''Invalid CiliumNetworkPolicy spec'')
                    else Inr ((case Spec c of None \<Rightarrow> [] | Some r \<Rightarrow> [r]) @ Specs c)),
      WaitForEndpointsAtPolicyRev = (\<lambda>t r. None),
      GetObjNamespaceName = (\<lambda>m. Namespace m @ ''/'' @ Name m),
      GetControllerName = (\<lambda>c. ''sync-cnp-policy-status ('' @ Namespace (cnpMeta c) @ ''/''
                                   @ Name (cnpMeta c) @ '')''),
      SpecEquals = (\<lambda>a b. Spec a = Spec b \<and> Specs a = Specs b),
      AnnotationsEquals = (\<lambda>a b. Annotations (cnpMeta a) = Annotations (cnpMeta b)),
      PreprocessRules = (\<lambda>rules eps svcs. (rules, None)),
      policyAdd = (\<lambda>r rules replace. ((42, None), r)),
      policyDelete = (\<lambda>r labels. ((43, None), r)),
      translateRules = (\<lambda>r t. (None, r)),
      GetPolicyLabels = (\<lambda>ns name ty. [ns, name, ty]),
      ResourceTypeCiliumNetworkPolicy = ''CiliumNetworkPolicy'',
      disableK8sServices = disabled, IPv4Disabled = False, IsLBEnabled = False,
      ParseIP = (\<lambda>s. if s = ''10.0.0.5'' then v4InV6 10 0 0 5
                     else if s = ''192.168.1.2'' then v4InV6 192 168 1 2
                     else if s = ''192.168.1.3'' then v4InV6 192 168 1 3
                     else if s = ''fd00::1'' then uniqueLocal1
                     else []),
      NewFEPort = (\<lambda>proto port. Inr \<lparr>Protocol = proto, Port = port, ID = 0\<rparr>),
      NewL4Addr = (\<lambda>proto port. Inr \<lparr>Protocol = proto, Port = port\<rparr>),
      NewL3n4Addr = (\<lambda>proto ip port. Inr \<lparr>Protocol = proto, Port = port, IP = ip\<rparr>),
      NewL3n4AddrID = (\<lambda>proto ip port i. Inr \<lparr>Protocol = proto, Port = port, IP = ip, AddrID = i\<rparr>),
      acquireID = (\<lambda>cs a base. Inr \<lparr>Protocol = Protocol a, Port = Port a, IP = IP a, AddrID = sid\<rparr>),
      Equals = (\<lambda>a b. FEIP a = FEIP b \<and> IsHeadless a = IsHeadless b \<and> siLabels a = siLabels b
                       \<and> Selector a = Selector b),
      IsExternal = (\<lambda>si. Selector si = [])\<rparr>"

definition emptyDaemon :: "unit Daemon" where
  "emptyDaemon =
     \<lparr>K8sServices = Map.empty, K8sEndpoints = Map.empty, K8sIngress = Map.empty, policy = (),
      importMetadataCache = Map.empty, endpointMetadataCache = Map.empty, k8sCM = Map.empty,
      calls = []\<rparr>"

text \<open>The service and the endpoints of the scenarios S1 and S2 of the specification.\<close>

definition webService :: Service where
  "webService =
     \<lparr>svcMeta = \<lparr>Name = ''web'', Namespace = ''default'', Labels = [], Annotations = []\<rparr>,
      svcType = ''ClusterIP'', ClusterIP = ''10.0.0.5'',
      specPorts = [\<lparr>spName = ''http'', spProtocol = ''TCP'', spPort = 80\<rparr>],
      svcSelector = [(''app'', ''web'')]\<rparr>"

definition webEndpoints :: Endpoints where
  "webEndpoints =
     \<lparr>epMeta = \<lparr>Name = ''web'', Namespace = ''default'', Labels = [], Annotations = []\<rparr>,
      Subsets = [\<lparr>Addresses = [''192.168.1.2'', ''192.168.1.3''],
                  subsetPorts = [\<lparr>eptName = ''http'', eptProtocol = ''TCP'', eptPort = 8080\<rparr>]\<rparr>]\<rparr>"

definition webKey :: K8sServiceNamespace where
  "webKey = \<lparr>ServiceName = ''web'', svcNamespace = ''default''\<rparr>"

definition webFrontend :: L3n4Addr where
  "webFrontend = \<lparr>Protocol = ''TCP'', Port = 80, IP = v4InV6 10 0 0 5\<rparr>"

text \<open>The state after the service and then its endpoints have been added.\<close>

definition afterAdds :: "ServiceID \<Rightarrow> unit Daemon" where
  "afterAdds sid =
     snd (addK8sEndpointV1 (scenarioEnv False sid) webEndpoints
            (snd (addK8sServiceV1 (scenarioEnv False sid) webService emptyDaemon)))"

text \<open>Endpoints of the same service with an IPv6 backend, and the state after they were added.\<close>

definition mixedEndpoints :: Endpoints where
  "mixedEndpoints =
     \<lparr>epMeta = \<lparr>Name = ''web'', Namespace = ''default'', Labels = [], Annotations = []\<rparr>,
      Subsets = [\<lparr>Addresses = [''fd00::1''],
                  subsetPorts = [\<lparr>eptName = ''http'', eptProtocol = ''TCP'', eptPort = 8080\<rparr>]\<rparr>]\<rparr>"

definition afterMixed :: "unit Daemon" where
  "afterMixed =
     snd (addK8sEndpointV1 (scenarioEnv False 7) mixedEndpoints
            (snd (addK8sServiceV1 (scenarioEnv False 7) webService emptyDaemon)))"

definition webServiceInfo :: K8sServiceInfo where
  "webServiceInfo =
     \<lparr>FEIP = v4InV6 10 0 0 5, IsHeadless = False,
      Ports = [(''http'', \<lparr>Protocol = ''TCP'', Port = 80, ID = 0\<rparr>)],
      siLabels = [], Selector = [(''app'', ''web'')]\<rparr>"

definition mixedServiceEndpoint :: K8sServiceEndpoint where
  "mixedServiceEndpoint =
     \<lparr>BEIPs = [''fd00::1''], epPorts = [(''http'', \<lparr>Protocol = ''TCP'', Port = 8080\<rparr>)]\<rparr>"



text \<open>A headless service, and the state in which only the endpoints of \<open>web\<close> are known.\<close>

definition headlessService :: Service where
  "headlessService =
     \<lparr>svcMeta = \<lparr>Name = ''web'', Namespace = ''default'', Labels = [], Annotations = []\<rparr>,
      svcType = ''ClusterIP'', ClusterIP = ''None'',
      specPorts = [\<lparr>spName = ''http'', spProtocol = ''TCP'', spPort = 80\<rparr>],
      svcSelector = [(''app'', ''web'')]\<rparr>"

definition afterEndpoints :: "unit Daemon" where
  "afterEndpoints = snd (addK8sEndpointV1 (scenarioEnv False 7) webEndpoints emptyDaemon)"






section \<open>Properties\<close>

text \<open>
  C10. The equality predicate registered for Ingress answers false on every pair of
  Ingress objects; hence no update of an Ingress is dropped as unchanged.
\<close>

theorem equalV1beta1Ingress_never_equal:
  "equalV1beta1Ingress (IngressObj a) (IngressObj b) = Inr False
   \<and> updateIsDelivered equalV1beta1Ingress (IngressObj a) (IngressObj b)"
  by (simp add: equalV1beta1Ingress_def updateIsDelivered_def)

text \<open>
  C9. The status entry that \<open>updateCNPNodeStatus\<close> writes under the node's name: when the
  reported error is not nil, its Error field is the error's message and its Revision is
  left out (zero); when the error is nil, its Revision is the import revision and its
  Error is left out (empty). A non-empty Error field only comes from a non-nil error, a
  non-zero Revision only from a nil error, and no entry carries both. For an error whose
  message is not empty the two shapes are told apart by the fields alone.
\<close>

theorem updateCNPNodeStatus_error_xor_revision:
  assumes "updateCNPNodeStatus env t cnp enforcing ok err rev' annotations = (err2, cnp', call)"
  shows "writtenObject call = Some cnp'
       \<and> (\<exists>st. map_of (StatusNodes cnp') (nodeGetName env) = Some st
            \<and> (err \<noteq> None \<longrightarrow> nsError st = Error (the err) \<and> nsRevision st = 0)
            \<and> (err = None \<longrightarrow> nsRevision st = rev' \<and> nsError st = [])
            \<and> (nsError st \<noteq> [] \<longrightarrow> err \<noteq> None)
            \<and> (nsRevision st \<noteq> 0 \<longrightarrow> err = None)
            \<and> \<not> (nsRevision st \<noteq> 0 \<and> nsError st \<noteq> [])
            \<and> ((\<forall>e. err = Some e \<longrightarrow> Error e \<noteq> []) \<longrightarrow>
                 ((err \<noteq> None) = (nsError st \<noteq> [] \<and> nsRevision st = 0))
                 \<and> ((err = None) = (nsRevision st = rev' \<and> nsError st = []))))"
  using assms
  by (cases err)
     (auto simp: updateCNPNodeStatus_def SetPolicyStatus_def Let_def update_conv' split: if_splits)

theorem updateCNPNodeStatus_error_xor_revision_witness:
  "(\<exists>st. map_of (StatusNodes (fst (snd (updateCNPNodeStatus conflictEnv 0 policyP1 False False
              (Some (errorString ''no such rule'')) 7 [])))) ''node-1'' = Some st
         \<and> nsError st = ''no such rule'' \<and> nsRevision st = 0)
   \<and> (\<exists>st. map_of (StatusNodes (fst (snd (updateCNPNodeStatus conflictEnv 0 policyP1 True True
              None 7 [])))) ''node-1'' = Some st
         \<and> nsError st = [] \<and> nsRevision st = 7)"
proof -
  have n: "nodeGetName conflictEnv = ''node-1''"
    by (simp add: conflictEnv_def)
  have a: "updateCNPNodeStatus conflictEnv 0 policyP1 False False (Some (errorString ''no such rule'')) 7 [] =
             (fst (updateCNPNodeStatus conflictEnv 0 policyP1 False False
                     (Some (errorString ''no such rule'')) 7 []),
              fst (snd (updateCNPNodeStatus conflictEnv 0 policyP1 False False
                     (Some (errorString ''no such rule'')) 7 [])),
              snd (snd (updateCNPNodeStatus conflictEnv 0 policyP1 False False
                     (Some (errorString ''no such rule'')) 7 [])))"
    by simp
  have b: "updateCNPNodeStatus conflictEnv 0 policyP1 True True None 7 [] =
             (fst (updateCNPNodeStatus conflictEnv 0 policyP1 True True None 7 []),
              fst (snd (updateCNPNodeStatus conflictEnv 0 policyP1 True True None 7 [])),
              snd (snd (updateCNPNodeStatus conflictEnv 0 policyP1 True True None 7 [])))"
    by simp
  from updateCNPNodeStatus_error_xor_revision [OF a] n
  have "\<exists>st. map_of (StatusNodes (fst (snd (updateCNPNodeStatus conflictEnv 0 policyP1 False False
              (Some (errorString ''no such rule'')) 7 [])))) ''node-1'' = Some st
         \<and> nsError st = ''no such rule'' \<and> nsRevision st = 0"
    by auto
  moreover from updateCNPNodeStatus_error_xor_revision [OF b] n
  have "\<exists>st. map_of (StatusNodes (fst (snd (updateCNPNodeStatus conflictEnv 0 policyP1 True True
              None 7 [])))) ''node-1'' = Some st
         \<and> nsError st = [] \<and> nsRevision st = 7"
    by auto
  ultimately show ?thesis by blast
qed

subsection \<open>The retry loop\<close>

lemma updateCNPNodeStatus_call:
  "isWrite (snd (snd (updateCNPNodeStatus env t c e ok err rv a)))
   \<and> writeResult (snd (snd (updateCNPNodeStatus env t c e ok err rv a)))
       = fst (updateCNPNodeStatus env t c e ok err rv a)"
  by (simp add: updateCNPNodeStatus_def Let_def)

lemma sleepsFollowFailures_skip:
  "\<not> writeFailed c \<Longrightarrow> sleepsFollowFailures (c # cs) = sleepsFollowFailures cs"
  by (cases cs) simp_all

lemma statusAttempts_done:
  "\<not> n < maxAttempts \<Longrightarrow> statusAttempts env store cnp rv pe we n ue = (Exited ue, [])"
  by (subst statusAttempts.simps) simp

lemma statusAttempts_store_error:
  "n < maxAttempts \<Longrightarrow> getUpdatedCNPFromStore (store n) cnp = Inl e \<Longrightarrow>
     statusAttempts env store cnp rv pe we n ue = (Returned e, [])"
  by (subst statusAttempts.simps) simp

lemma statusAttempts_step:
  assumes "n < maxAttempts" and "getUpdatedCNPFromStore (store n) cnp = Inr c"
  shows "\<exists>ev r. isWrite ev \<and> writeResult ev = r
           \<and> statusAttempts env store cnp rv pe we n ue =
               (if r = None then (Exited None, [ev])
                else (fst (statusAttempts env store cnp rv pe we (Suc n) r),
                      ev # Sleep 200 # snd (statusAttempts env store cnp rv pe we (Suc n) r)))"
proof -
  define w where "w = (if pe \<noteq> None then
                         updateCNPNodeStatus env n c False False pe rv (Annotations (cnpMeta c))
                       else if (case Parse env c of Inl e \<Rightarrow> Some e | Inr _ \<Rightarrow> None) \<noteq> None then
                         updateCNPNodeStatus env n c False False
                           (case Parse env c of Inl e \<Rightarrow> Some e | Inr _ \<Rightarrow> None) rv
                           (Annotations (cnpMeta c))
                       else
                         updateCNPNodeStatus env n c (we = None) True we rv (Annotations (cnpMeta c)))"
  have w: "isWrite (snd (snd w)) \<and> writeResult (snd (snd w)) = fst w"
    unfolding w_def by (simp only: updateCNPNodeStatus_call split: if_split) simp
  have "statusAttempts env store cnp rv pe we n ue =
          (case w of (cnpUpdateErr', _, call) \<Rightarrow>
             if cnpUpdateErr' = None then (Exited None, [call])
             else (case statusAttempts env store cnp rv pe we (Suc n) cnpUpdateErr'
                   of (exit, trace) \<Rightarrow> (exit, call # Sleep updateWaitDuration # trace)))"
    unfolding w_def
    by (subst statusAttempts.simps) (simp add: assms Let_def del: not_None_eq)
  then have "statusAttempts env store cnp rv pe we n ue =
               (if fst w = None then (Exited None, [snd (snd w)])
                else (fst (statusAttempts env store cnp rv pe we (Suc n) (fst w)),
                      snd (snd w) # Sleep 200 # snd (statusAttempts env store cnp rv pe we (Suc n) (fst w))))"
    by (simp add: updateWaitDuration_def split: prod.splits)
  with w show ?thesis by blast
qed

lemma statusAttempts_inv:
  "statusAttempts env store cnp rv pe we n ue = (ex, trace) \<Longrightarrow>
     length (filter isWrite trace) \<le> maxAttempts - n
   \<and> sleepsFollowFailures trace
   \<and> (ex = Exited None \<longrightarrow>
         (trace = [] \<and> ue = None \<and> \<not> n < maxAttempts)
         \<or> (trace \<noteq> [] \<and> isWrite (last trace) \<and> writeResult (last trace) = None))
   \<and> (\<forall>e. ex = Exited (Some e) \<longrightarrow>
         length (filter isWrite trace) = maxAttempts - n
         \<and> list_all writeFailed (filter isWrite trace)
         \<and> (if filter isWrite trace = [] then ue = Some e
             else writeResult (last (filter isWrite trace)) = Some e))
   \<and> (\<forall>e. ex = Returned e \<longrightarrow>
         (\<exists>k. n \<le> k \<and> k < maxAttempts \<and> getUpdatedCNPFromStore (store k) cnp = Inl e))
   \<and> (\<forall>e. ex = Returned e \<longrightarrow> length (filter isWrite trace) < maxAttempts - n)"
proof (induction "maxAttempts - n" arbitrary: n ue ex trace)
  case 0
  then have "\<not> n < maxAttempts" by simp
  with 0 show ?case by (auto simp: statusAttempts_done)
next
  case (Suc k)
  then have n: "n < maxAttempts" and k: "k = maxAttempts - Suc n" by simp_all
  show ?case
  proof (cases "getUpdatedCNPFromStore (store n) cnp")
    case (Inl e)
    with n Suc.prems show ?thesis
      by (auto simp: statusAttempts_store_error)
  next
    case (Inr c)
    from statusAttempts_step [where store = store and n = n and cnp = cnp and c = c and env = env
        and rv = rv and pe = pe and we = we and ue = ue, OF n Inr]
    obtain ev r where ev: "isWrite ev" "writeResult ev = r"
      and st: "statusAttempts env store cnp rv pe we n ue =
               (if r = None then (Exited None, [ev])
                else (fst (statusAttempts env store cnp rv pe we (Suc n) r),
                      ev # Sleep 200 # snd (statusAttempts env store cnp rv pe we (Suc n) r)))"
      by blast
    show ?thesis
    proof (cases r)
      case None
      with st Suc.prems ev n show ?thesis
        by (auto simp: writeFailed_def)
    next
      case (Some e')
      obtain ex' trace' where rest: "statusAttempts env store cnp rv pe we (Suc n) r = (ex', trace')"
        by (cases "statusAttempts env store cnp rv pe we (Suc n) r")
      note IH = Suc.hyps(1) [OF k rest]
      from st Some rest Suc.prems have ex: "ex = ex'" and trace: "trace = ev # Sleep 200 # trace'"
        by simp_all
      have wf: "writeFailed ev" using ev Some by (simp add: writeFailed_def)
      have c1: "length (filter isWrite trace) \<le> maxAttempts - n"
        using IH n ev by (auto simp: trace)
      have c2: "sleepsFollowFailures trace"
        using IH wf by (auto simp: trace)
      have c3: "ex = Exited None \<longrightarrow>
         (trace = [] \<and> ue = None \<and> \<not> n < maxAttempts)
         \<or> (trace \<noteq> [] \<and> isWrite (last trace) \<and> writeResult (last trace) = None)"
        using IH Some by (auto simp: trace ex)
      have c4: "\<forall>e. ex = Exited (Some e) \<longrightarrow>
         length (filter isWrite trace) = maxAttempts - n
         \<and> list_all writeFailed (filter isWrite trace)
         \<and> (if filter isWrite trace = [] then ue = Some e
             else writeResult (last (filter isWrite trace)) = Some e)"
        using IH Some n ev wf by (auto simp: trace ex split: if_splits)
      have c5: "\<forall>e. ex = Returned e \<longrightarrow>
         (\<exists>k. n \<le> k \<and> k < maxAttempts \<and> getUpdatedCNPFromStore (store k) cnp = Inl e)"
        using IH by (metis Suc_leD ex)
      have c6: "\<forall>e. ex = Returned e \<longrightarrow> length (filter isWrite trace) < maxAttempts - n"
        using IH n ev by (auto simp: trace ex)
      from c1 c2 c3 c4 c5 c6 show ?thesis by blast
    qed
  qed
qed


text \<open>
  C3. A run of \<open>cnpNodeStatusController\<close> first waits, for at most 30 s, for the endpoints to
  reach the revision; it writes the status at most 5 times; every failed write is
  directly followed by a sleep of 200 ms; when it returns the write error, five writes
  were made, all failed, and the error is that of the last one; when all five writes
  failed it returns the write error (and so it does whenever every write failed and no
  lookup in the store did); it returns the result of the wait only after a write that
  succeeded; and what it returns otherwise is the error of a failed lookup in the store,
  after fewer than five writes.
\<close>

theorem cnpNodeStatusController_retries:
  assumes "cnpNodeStatusController env store cnp rev' policyImportErr = (r, trace)"
  shows "hd trace = WaitForEndpoints 30000 rev' (WaitForEndpointsAtPolicyRev env 30000 rev')
       \<and> length (filter isWrite trace) \<le> 5
       \<and> sleepsFollowFailures trace
       \<and> (\<forall>e. r = ReturnCnpUpdateErr e \<longrightarrow>
             length (filter isWrite trace) = 5
             \<and> list_all writeFailed (filter isWrite trace)
             \<and> writeResult (last (filter isWrite trace)) = Some e)
       \<and> (length (filter isWrite trace) = 5 \<and> list_all writeFailed (filter isWrite trace) \<longrightarrow>
             (\<exists>e. r = ReturnCnpUpdateErr e \<and> writeResult (last (filter isWrite trace)) = Some e))
       \<and> (list_all writeFailed (filter isWrite trace) \<and> (\<forall>e. r \<noteq> ReturnFromStoreErr e) \<longrightarrow>
             (\<exists>e. r = ReturnCnpUpdateErr e))
       \<and> (\<forall>w. r = ReturnWaitForEPsErr w \<longrightarrow>
             w = WaitForEndpointsAtPolicyRev env 30000 rev'
             \<and> isWrite (last trace) \<and> writeResult (last trace) = None)
       \<and> (\<forall>e. r = ReturnFromStoreErr e \<longrightarrow>
             length (filter isWrite trace) < 5
             \<and> (\<exists>k<5. getUpdatedCNPFromStore (store k) cnp = Inl e))"
proof -
  define we where "we = WaitForEndpointsAtPolicyRev env 30000 rev'"
  obtain ex evs where l: "statusAttempts env store cnp rev' policyImportErr we 0 None = (ex, evs)"
    by (cases "statusAttempts env store cnp rev' policyImportErr we 0 None")
  note inv = statusAttempts_inv [OF l]
  from assms l have trace: "trace = WaitForEndpoints 30000 rev' we # evs"
    and r: "r = (case ex of Returned e \<Rightarrow> ReturnFromStoreErr e
                 | Exited None \<Rightarrow> ReturnWaitForEPsErr we
                 | Exited (Some e) \<Rightarrow> ReturnCnpUpdateErr e)"
    by (auto simp: cnpNodeStatusController_def Let_def we_def split: loop_exit.splits option.splits)
  have nw: "\<not> writeFailed (WaitForEndpoints 30000 rev' we)"
    by (simp add: writeFailed_def)
  have m: "(0::nat) < maxAttempts" "maxAttempts - 0 = 5" by (simp_all add: maxAttempts_def)
  have c1: "hd trace = WaitForEndpoints 30000 rev' we" by (simp add: trace)
  have c2: "length (filter isWrite trace) \<le> 5"
    using inv m by (simp add: trace)
  have c3: "sleepsFollowFailures trace"
    using inv nw by (simp add: trace sleepsFollowFailures_skip)
  have c4: "\<forall>e. r = ReturnCnpUpdateErr e \<longrightarrow>
             length (filter isWrite trace) = 5
             \<and> list_all writeFailed (filter isWrite trace)
             \<and> writeResult (last (filter isWrite trace)) = Some e"
    using inv m by (auto simp: trace r split: loop_exit.splits option.splits if_splits)
  have c6: "\<forall>w. r = ReturnWaitForEPsErr w \<longrightarrow>
             w = we \<and> isWrite (last trace) \<and> writeResult (last trace) = None"
    using inv m by (auto simp: trace r split: loop_exit.splits option.splits)
  have c5: "list_all writeFailed (filter isWrite trace) \<and> (\<forall>e. r \<noteq> ReturnFromStoreErr e) \<longrightarrow>
             (\<exists>e. r = ReturnCnpUpdateErr e)"
  proof (intro impI, elim conjE)
    assume all: "list_all writeFailed (filter isWrite trace)" and ns: "\<forall>e. r \<noteq> ReturnFromStoreErr e"
    show "\<exists>e. r = ReturnCnpUpdateErr e"
    proof (cases r)
      case (ReturnWaitForEPsErr w)
      with c6 have "isWrite (last trace)" "writeResult (last trace) = None" by simp_all
      moreover have "last trace \<in> set (filter isWrite trace)"
        using \<open>isWrite (last trace)\<close> by (auto simp: trace split: if_splits)
      ultimately show ?thesis using all by (auto simp: list_all_iff writeFailed_def)
    qed (use ns in auto)
  qed
  have c7: "\<forall>e. r = ReturnFromStoreErr e \<longrightarrow>
             length (filter isWrite trace) < 5
             \<and> (\<exists>k<5. getUpdatedCNPFromStore (store k) cnp = Inl e)"
    using inv by (auto simp: r trace maxAttempts_def split: loop_exit.splits option.splits)
  have c8: "length (filter isWrite trace) = 5 \<and> list_all writeFailed (filter isWrite trace) \<longrightarrow>
             (\<exists>e. r = ReturnCnpUpdateErr e \<and> writeResult (last (filter isWrite trace)) = Some e)"
  proof (intro impI, elim conjE)
    assume five: "length (filter isWrite trace) = 5"
      and all: "list_all writeFailed (filter isWrite trace)"
    from five c7 have "\<forall>e. r \<noteq> ReturnFromStoreErr e" by auto
    with all c5 obtain e where "r = ReturnCnpUpdateErr e" by blast
    with c4 show "\<exists>e. r = ReturnCnpUpdateErr e \<and> writeResult (last (filter isWrite trace)) = Some e"
      by blast
  qed
  from c1 c2 c3 c4 c5 c6 c7 c8 show ?thesis unfolding we_def by blast
qed

theorem cnpNodeStatusController_retries_witness:
  "fst (cnpNodeStatusController conflictEnv cachedStore policyP1 7 None) =
     ReturnCnpUpdateErr (errorString ''gone'')
   \<and> length (filter isWrite (snd (cnpNodeStatusController conflictEnv cachedStore policyP1 7 None))) = 5
   \<and> sleepsFollowFailures (snd (cnpNodeStatusController conflictEnv cachedStore policyP1 7 None))
   \<and> writeResult (last (filter isWrite
        (snd (cnpNodeStatusController conflictEnv cachedStore policyP1 7 None)))) =
       Some (errorString ''gone'')"
  using cnpNodeStatusController_retries
          [of conflictEnv cachedStore policyP1 7 None
              "fst (cnpNodeStatusController conflictEnv cachedStore policyP1 7 None)"
              "snd (cnpNodeStatusController conflictEnv cachedStore policyP1 7 None)"]
  by (simp add: cnpNodeStatusController_def conflictEnv_def cachedStore_def policyP1_def
      statusAttempts.simps getUpdatedCNPFromStore_def updateCNPNodeStatus_def Let_def maxAttempts_def
      updateWaitDuration_def SetPolicyStatus_def writeFailed_def)

subsection \<open>Address families\<close>

lemma find_case_None:
  "((case find P xs of Some x \<Rightarrow> Some e | None \<Rightarrow> None) \<noteq> None) = list_ex P xs"
  by (induction xs) auto

lemma areIPsConsistent_iff:
  "(areIPsConsistent env (\<not> IPv4Disabled env) (To4 (FEIP svcInfo) \<noteq> []) svc se \<noteq> None)
     = familiesDiffer env svcInfo se"
proof (cases "To4 (FEIP svcInfo) = []")
  case True
  then show ?thesis
    unfolding areIPsConsistent_def familiesDiffer_def
    by (simp add: find_case_None del: not_None_eq)
next
  case False
  then show ?thesis
    unfolding areIPsConsistent_def familiesDiffer_def
    by (cases "IPv4Disabled env") (simp_all add: find_case_None del: not_None_eq)
qed

lemma delK8sSVCs_error_iff:
  "(fst (delK8sSVCs env svc svcInfo se d) \<noteq> None) =
     (\<not> disableK8sServices env \<and> \<not> IsHeadless svcInfo \<and> familiesDiffer env svcInfo se)"
  using areIPsConsistent_iff [of env svcInfo svc se]
  by (auto simp: delK8sSVCs_def Let_def split: option.splits)

lemma delK8sSVCs_frame:
  "snd (delK8sSVCs env svc svcInfo se d) = d\<lparr>calls := calls (snd (delK8sSVCs env svc svcInfo se d))\<rparr>"
  by (simp add: delK8sSVCs_def Let_def split: option.splits)

subsection \<open>The scenarios, step by step\<close>

lemma To4_v4InV6: "To4 (v4InV6 a b c d) = [a, b, c, d]"
  by (simp add: To4_def v4InV6_def)

lemma To4_uniqueLocal1: "To4 uniqueLocal1 = []"
  by (simp add: To4_def uniqueLocal1_def)

lemma env_fields:
  "disableK8sServices (scenarioEnv dis sid) = dis"
  "IPv4Disabled (scenarioEnv dis sid) = False"
  "IsLBEnabled (scenarioEnv dis sid) = False"
  "IsExternal (scenarioEnv dis sid) si = (Selector si = [])"
  "ParseIP (scenarioEnv dis sid) ''10.0.0.5'' = v4InV6 10 0 0 5"
  "ParseIP (scenarioEnv dis sid) ''192.168.1.2'' = v4InV6 192 168 1 2"
  "ParseIP (scenarioEnv dis sid) ''192.168.1.3'' = v4InV6 192 168 1 3"
  "ParseIP (scenarioEnv dis sid) ''fd00::1'' = uniqueLocal1"
  "NewL3n4Addr (scenarioEnv dis sid) proto ip port = Inr \<lparr>Protocol = proto, Port = port, IP = ip\<rparr>"
  "NewL3n4AddrID (scenarioEnv dis sid) proto ip port i =
     Inr \<lparr>Protocol = proto, Port = port, IP = ip, AddrID = i\<rparr>"
  "acquireID (scenarioEnv dis sid) cs a base =
     Inr \<lparr>Protocol = Protocol a, Port = Port a, IP = IP a, AddrID = sid\<rparr>"
  "Equals (scenarioEnv dis sid) x y =
     (FEIP x = FEIP y \<and> IsHeadless x = IsHeadless y \<and> siLabels x = siLabels y \<and> Selector x = Selector y)"
  by (simp_all add: scenarioEnv_def)

lemma object_keys:
  "Name (svcMeta webService) = ''web''" "Namespace (svcMeta webService) = ''default''"
  "Name (svcMeta headlessService) = ''web''" "Namespace (svcMeta headlessService) = ''default''"
  "Name (epMeta webEndpoints) = ''web''" "Namespace (epMeta webEndpoints) = ''default''"
  "Name (epMeta mixedEndpoints) = ''web''" "Namespace (epMeta mixedEndpoints) = ''default''"
  by (simp_all add: webService_def headlessService_def webEndpoints_def mixedEndpoints_def)

lemma emptyDaemon_fields:
  "K8sServices emptyDaemon = Map.empty" "K8sEndpoints emptyDaemon = Map.empty"
  "K8sIngress emptyDaemon = Map.empty" "calls emptyDaemon = []"
  "endpointMetadataCache emptyDaemon = Map.empty" "importMetadataCache emptyDaemon = Map.empty"
  "k8sCM emptyDaemon = Map.empty" "policy emptyDaemon = ()"
  by (simp_all add: emptyDaemon_def)

lemma parse_webService:
  "parseSvcV1 (scenarioEnv dis sid) webService = Some webServiceInfo"
  by (simp add: parseSvcV1_def scenarioEnv_def webService_def webServiceInfo_def NewK8sServiceInfo_def
      ToLower_def toLowerChar_def Let_def)

lemma ToLower_None: "ToLower ''None'' = ''none''"
  by code_simp

lemma parse_headlessService:
  "parseSvcV1 (scenarioEnv dis sid) headlessService =
     Some (webServiceInfo\<lparr>FEIP := [], IsHeadless := True\<rparr>)"
  by (simp add: parseSvcV1_def scenarioEnv_def headlessService_def webServiceInfo_def NewK8sServiceInfo_def
      ToLower_None Let_def)

lemma parse_webEndpoints:
  "parseK8sEPv1 (scenarioEnv dis sid) webEndpoints =
     \<lparr>BEIPs = [''192.168.1.2'', ''192.168.1.3''],
      epPorts = [(''http'', \<lparr>Protocol = ''TCP'', Port = 8080\<rparr>)]\<rparr>"
  by (simp add: parseK8sEPv1_def scenarioEnv_def webEndpoints_def NewK8sServiceEndpoint_def)

lemma parse_mixedEndpoints:
  "parseK8sEPv1 (scenarioEnv dis sid) mixedEndpoints = mixedServiceEndpoint"
  by (simp add: parseK8sEPv1_def scenarioEnv_def mixedEndpoints_def NewK8sServiceEndpoint_def
                mixedServiceEndpoint_def)

lemma afterService:
  "addK8sServiceV1 (scenarioEnv dis sid) webService emptyDaemon =
     (None, emptyDaemon\<lparr>K8sServices := [webKey \<mapsto> webServiceInfo]\<rparr>)"
  by (simp add: addK8sServiceV1_def parse_webService Let_def object_keys emptyDaemon_fields
      syncLB_def syncLB_addSN_def webKey_def)

lemma afterAdds_eq:
  "afterAdds sid =
     emptyDaemon
       \<lparr>K8sServices :=
          [webKey \<mapsto> webServiceInfo\<lparr>Ports := [(''http'', \<lparr>Protocol = ''TCP'', Port = 80, ID = sid\<rparr>)]\<rparr>],
        K8sEndpoints :=
          [webKey \<mapsto> \<lparr>BEIPs = [''192.168.1.2'', ''192.168.1.3''],
                       epPorts = [(''http'', \<lparr>Protocol = ''TCP'', Port = 8080\<rparr>)]\<rparr>],
        calls :=
          [AcquireID webFrontend 0
             (Inr \<lparr>Protocol = ''TCP'', Port = 80, IP = v4InV6 10 0 0 5, AddrID = sid\<rparr>),
           SvcAdd \<lparr>Protocol = ''TCP'', Port = 80, IP = v4InV6 10 0 0 5, AddrID = sid\<rparr>
             [\<lparr>Protocol = ''TCP'', Port = 8080, IP = v4InV6 192 168 1 2, Weight = 0\<rparr>,
              \<lparr>Protocol = ''TCP'', Port = 8080, IP = v4InV6 192 168 1 3, Weight = 0\<rparr>] True]\<rparr>"
  by (simp add: afterAdds_def afterService addK8sEndpointV1_def parse_webEndpoints env_fields Let_def
      object_keys emptyDaemon_fields webKey_def syncLB_def syncLB_addSN_def addK8sSVCs_def
      webServiceInfo_def To4_v4InV6 areIPsConsistent_def getUniqPorts_def addK8sSVCs_round_def
      webFrontend_def)

lemma afterMixed_eq:
  "afterMixed =
     emptyDaemon\<lparr>K8sServices := [webKey \<mapsto> webServiceInfo],
                 K8sEndpoints := [webKey \<mapsto> mixedServiceEndpoint]\<rparr>"
  by (simp add: afterMixed_def afterService addK8sEndpointV1_def parse_mixedEndpoints env_fields Let_def
      object_keys emptyDaemon_fields webKey_def syncLB_def syncLB_addSN_def addK8sSVCs_def
      webServiceInfo_def To4_v4InV6 To4_uniqueLocal1 areIPsConsistent_def mixedServiceEndpoint_def)

lemma afterEndpoints_eq:
  "afterEndpoints =
     emptyDaemon\<lparr>K8sEndpoints :=
       [webKey \<mapsto> \<lparr>BEIPs = [''192.168.1.2'', ''192.168.1.3''],
                    epPorts = [(''http'', \<lparr>Protocol = ''TCP'', Port = 8080\<rparr>)]\<rparr>]\<rparr>"
  by (simp add: afterEndpoints_def addK8sEndpointV1_def parse_webEndpoints env_fields Let_def
      object_keys emptyDaemon_fields webKey_def syncLB_def syncLB_addSN_def)

lemma families_of_the_scenarios:
  "familiesDiffer (scenarioEnv dis sid) webServiceInfo mixedServiceEndpoint"
  "\<not> familiesDiffer (scenarioEnv dis sid) webServiceInfo
       \<lparr>BEIPs = [''192.168.1.2'', ''192.168.1.3''],
        epPorts = [(''http'', \<lparr>Protocol = ''TCP'', Port = 8080\<rparr>)]\<rparr>"
  by (simp_all add: familiesDiffer_def env_fields webServiceInfo_def mixedServiceEndpoint_def
        To4_v4InV6 To4_uniqueLocal1)

subsection \<open>Rejection of mixed address families; deletion from the tables\<close>

text \<open>
  C4 (amended). When the services are not disabled and the service is not headless,
  \<open>addK8sSVCs\<close> and \<open>delK8sSVCs\<close> return an error exactly when the families differ: some
  backend address is not of the family of the frontend, or the frontend is IPv4 while IPv4
  is disabled. On the error nothing was done: no call was made, no ID was stored.
\<close>

theorem inconsistent_families_rejected:
  assumes "\<not> disableK8sServices env" and "\<not> IsHeadless svcInfo"
  shows "((fst (addK8sSVCs env svc svcInfo se d) \<noteq> None) = familiesDiffer env svcInfo se)
       \<and> ((fst (delK8sSVCs env svc svcInfo se d) \<noteq> None) = familiesDiffer env svcInfo se)
       \<and> (familiesDiffer env svcInfo se \<longrightarrow>
             snd (addK8sSVCs env svc svcInfo se d) = (svcInfo, d)
             \<and> snd (delK8sSVCs env svc svcInfo se d) = d)"
  using assms areIPsConsistent_iff [of env svcInfo svc se]
  by (auto simp: addK8sSVCs_def delK8sSVCs_def Let_def split: option.splits prod.splits)

theorem inconsistent_families_rejected_witness:
  "\<not> disableK8sServices (scenarioEnv False 7) \<and> \<not> IsHeadless webServiceInfo
   \<and> familiesDiffer (scenarioEnv False 7) webServiceInfo mixedServiceEndpoint
   \<and> fst (addK8sSVCs (scenarioEnv False 7) webKey webServiceInfo mixedServiceEndpoint emptyDaemon) \<noteq> None
   \<and> snd (addK8sSVCs (scenarioEnv False 7) webKey webServiceInfo mixedServiceEndpoint emptyDaemon)
       = (webServiceInfo, emptyDaemon)
   \<and> fst (delK8sSVCs (scenarioEnv False 7) webKey webServiceInfo mixedServiceEndpoint emptyDaemon) \<noteq> None"
proof -
  have h: "\<not> disableK8sServices (scenarioEnv False 7)" "\<not> IsHeadless webServiceInfo"
    by (simp_all add: env_fields webServiceInfo_def)
  have f: "familiesDiffer (scenarioEnv False 7) webServiceInfo mixedServiceEndpoint"
    by (rule families_of_the_scenarios)
  from inconsistent_families_rejected [OF h, of webKey mixedServiceEndpoint emptyDaemon] f h
  show ?thesis by blast
qed

theorem disabled_services_accept_mixed_families:
  "familiesDiffer (scenarioEnv True 7) webServiceInfo mixedServiceEndpoint
   \<and> fst (addK8sSVCs (scenarioEnv True 7) webKey webServiceInfo mixedServiceEndpoint emptyDaemon) = None
   \<and> fst (delK8sSVCs (scenarioEnv True 7) webKey webServiceInfo mixedServiceEndpoint emptyDaemon) = None"
  by (simp add: families_of_the_scenarios addK8sSVCs_def delK8sSVCs_def env_fields)

lemma syncLB_delete_rejected:
  assumes "K8sServices d k = Some svc" and "K8sEndpoints d k = Some ep"
    and "\<not> disableK8sServices env" and "\<not> IsHeadless svc" and "familiesDiffer env svc ep"
  shows "fst (syncLB env newSN modSN (Some k) d) \<noteq> None
      \<and> snd (syncLB env newSN modSN (Some k) d) = d"
proof -
  have "areIPsConsistent env (\<not> IPv4Disabled env) (To4 (FEIP svc) \<noteq> []) k ep \<noteq> None"
    using assms(5) areIPsConsistent_iff [of env svc k ep] by blast
  with assms show ?thesis
    by (auto simp: syncLB_def syncLB_deleteSN_def delK8sSVCs_def Let_def)
qed

lemma syncLB_delete_one:
  assumes "(K8sServices d k = None) \<noteq> (K8sEndpoints d k = None)"
  shows "syncLB env newSN modSN (Some k) d =
        (None, d\<lparr>K8sServices := (K8sServices d)(k := None),
                  K8sEndpoints := (K8sEndpoints d)(k := None)\<rparr>)"
proof -
  have "(K8sServices d k = None \<longrightarrow> (K8sServices d)(k := None) = K8sServices d)"
       "(K8sEndpoints d k = None \<longrightarrow> (K8sEndpoints d)(k := None) = K8sEndpoints d)"
    by (auto simp: fun_upd_idem_iff)
  with assms show ?thesis
    by (auto simp: syncLB_def syncLB_deleteSN_def split: option.splits)
qed

lemma getUniqPorts_fold:
  "fold (\<lambda>(_, svcPort) uniqPorts. uniqPorts(Port svcPort \<mapsto> True)) ports m x =
     (if x \<in> Port ` snd ` set ports then Some True else m x)"
  by (induction ports arbitrary: m) (auto split: prod.splits)

lemma getUniqPorts_member:
  "(n, p) \<in> set ports \<Longrightarrow> getUniqPorts ports (Port p) = Some True"
  unfolding getUniqPorts_def getUniqPorts_fold by force

lemma delK8sSVCs_loop_calls:
  "delK8sSVCs_loop env feip ports rep cs =
     cs @ concat (map (portDeletion env feip)
                   (representatives (filter (\<lambda>(n, p). rep (Port p) = Some True) ports)))"
proof (induction ports arbitrary: rep cs)
  case Nil
  show ?case by simp
next
  case (Cons np rest)
  obtain n p where np: "np = (n, p)" by (cases np)
  show ?case
  proof (cases "rep (Port p) = Some True")
    case False
    with Cons np show ?thesis by simp
  next
    case True
    have f: "filter (\<lambda>(n, q). (rep(Port p \<mapsto> False)) (Port q) = Some True) rest =
             filter (\<lambda>(_, q). Port q \<noteq> Port p) (filter (\<lambda>(n, q). rep (Port q) = Some True) rest)"
      by (auto simp: filter_filter intro!: filter_cong)
    have ih: "\<And>cs'. delK8sSVCs_loop env feip rest (rep(Port p \<mapsto> False)) cs' =
             cs' @ concat (map (portDeletion env feip)
                   (representatives (filter (\<lambda>(_, q). Port q \<noteq> Port p)
                      (filter (\<lambda>(n, q). rep (Port q) = Some True) rest))))"
      by (simp only: Cons.IH f)
    show ?thesis
      unfolding np
      by (simp only: delK8sSVCs_loop.simps True Let_def ih filter.simps prod.case if_True
            representatives.simps list.map concat.simps)
         (simp add: portDeletion_def [of env feip p] split: sum.splits)
  qed
qed

lemma delK8sSVCs_calls:
  assumes "\<not> disableK8sServices env" and "\<not> IsHeadless svcInfo" and "\<not> familiesDiffer env svcInfo se"
  shows "delK8sSVCs env svc svcInfo se d =
     (None, d\<lparr>calls := calls d @ concat (map (portDeletion env (FEIP svcInfo))
                                         (representatives (Ports svcInfo)))\<rparr>)"
proof -
  have "filter (\<lambda>(n, p). getUniqPorts (Ports svcInfo) (Port p) = Some True) (Ports svcInfo) = Ports svcInfo"
    by (rule filter_True) (auto simp: getUniqPorts_member)
  moreover have "areIPsConsistent env (\<not> IPv4Disabled env) (To4 (FEIP svcInfo) \<noteq> []) svc se = None"
    using assms(3) areIPsConsistent_iff [of env svcInfo svc se] by simp
  ultimately show ?thesis
    using assms(1,2) by (simp add: delK8sSVCs_def Let_def delK8sSVCs_loop_calls)
qed

lemma datapath_append: "datapath (cs @ xs) = fold datapathStep xs (datapath cs)"
  by (simp add: datapath_def)

lemma datapath_deleted:
  assumes "\<forall>c \<in> set xs. \<forall>a b r. c \<noteq> SvcAdd a b r"
    and "SvcDeleteByFrontend fe \<in> set xs \<or> fe \<notin> set m"
  shows "fe \<notin> set (fold datapathStep xs m)"
  using assms
proof (induction xs arbitrary: m)
  case Nil
  then show ?case by simp
next
  case (Cons x xs)
  have "SvcDeleteByFrontend fe \<in> set xs \<or> fe \<notin> set (datapathStep x m)"
    using Cons.prems by (cases x) auto
  with Cons show ?case by simp
qed

lemma portDeletion_no_add: "c \<in> set (portDeletion env feip p) \<Longrightarrow> c \<noteq> SvcAdd a b r"
  by (auto simp: portDeletion_def split: sum.splits if_splits)

lemma portDeletion_deletes:
  "NewL3n4Addr env (Protocol p) feip (Port p) = Inr fe \<Longrightarrow>
     SvcDeleteByFrontend fe \<in> set (portDeletion env feip p)"
  by (simp add: portDeletion_def)

lemma deletion_empties_datapath:
  assumes "p \<in> set ps" and "NewL3n4Addr env (Protocol p) feip (Port p) = Inr fe"
  shows "fe \<notin> set (datapath (cs @ concat (map (portDeletion env feip) ps)))"
  unfolding datapath_append
proof (rule datapath_deleted)
  show "\<forall>c\<in>set (concat (map (portDeletion env feip) ps)). \<forall>a b r. c \<noteq> SvcAdd a b r"
    by (auto dest: portDeletion_no_add)
  show "SvcDeleteByFrontend fe \<in> set (concat (map (portDeletion env feip) ps)) \<or> fe \<notin> set (datapath cs)"
    using assms portDeletion_deletes [of env p feip fe] by auto
qed

lemma syncLB_delete_quiet:
  assumes "K8sServices d k = Some svc" and "K8sEndpoints d k = Some ep"
    and "disableK8sServices env \<or> IsHeadless svc"
  shows "syncLB env newSN modSN (Some k) d =
        (None, d\<lparr>K8sServices := (K8sServices d)(k := None),
                  K8sEndpoints := (K8sEndpoints d)(k := None)\<rparr>)"
  using assms by (auto simp: syncLB_def syncLB_deleteSN_def delK8sSVCs_def)

lemma syncLB_delete_datapath:
  assumes "K8sServices d k = Some svc" and "K8sEndpoints d k = Some ep"
    and "\<not> disableK8sServices env" and "\<not> IsHeadless svc" and "\<not> familiesDiffer env svc ep"
  shows "syncLB env newSN modSN (Some k) d =
        (None, d\<lparr>calls := calls d @ concat (map (portDeletion env (FEIP svc)) (representatives (Ports svc))),
                  K8sServices := (K8sServices d)(k := None),
                  K8sEndpoints := (K8sEndpoints d)(k := None)\<rparr>)"
  using assms delK8sSVCs_calls [OF assms(3-5), of k d]
  by (simp add: syncLB_def syncLB_deleteSN_def)

lemma syncLB_delete_datapath_empty:
  assumes "K8sServices d k = Some svc" and "K8sEndpoints d k = Some ep"
    and "\<not> disableK8sServices env" and "\<not> IsHeadless svc" and "\<not> familiesDiffer env svc ep"
    and "p \<in> set (representatives (Ports svc))"
    and "NewL3n4Addr env (Protocol p) (FEIP svc) (Port p) = Inr fe"
  shows "fe \<notin> set (datapath (calls (snd (syncLB env newSN modSN (Some k) d))))"
  using syncLB_delete_datapath [OF assms(1-5)] deletion_empties_datapath [OF assms(6,7)]
  by simp

text \<open>
  C5 (amended). \<open>syncLB\<close> with a key to delete. When the service and the endpoints are both
  there and the services are disabled or the service is headless, both table entries are
  removed and no call is made. When both are there, the services are enabled, the service
  is not headless and the families agree, the datapath entries are deleted first: for the
  first port of every port number, in the order of the ports, the ID is released (when it
  is not 0), \<open>svcDeleteByFrontend\<close> is called on the frontend and \<open>RevNATDelete\<close> on the ID;
  after these calls none of these frontends has an entry in the datapath; then both table
  entries are removed. When both are there and the families differ, the error is
  returned and nothing changes: both entries stay. When only one of the two is there, it
  is removed and nothing else changes: no call is made.
\<close>

theorem syncLB_delete:
  "(\<forall>svc ep. K8sServices d k = Some svc \<and> K8sEndpoints d k = Some ep
        \<and> (disableK8sServices env \<or> IsHeadless svc) \<longrightarrow>
      syncLB env newSN modSN (Some k) d =
        (None, d\<lparr>K8sServices := (K8sServices d)(k := None),
                  K8sEndpoints := (K8sEndpoints d)(k := None)\<rparr>))
   \<and> (\<forall>svc ep. K8sServices d k = Some svc \<and> K8sEndpoints d k = Some ep
        \<and> \<not> disableK8sServices env \<and> \<not> IsHeadless svc \<and> \<not> familiesDiffer env svc ep \<longrightarrow>
      syncLB env newSN modSN (Some k) d =
        (None, d\<lparr>calls := calls d @ concat (map (portDeletion env (FEIP svc))
                                             (representatives (Ports svc))),
                  K8sServices := (K8sServices d)(k := None),
                  K8sEndpoints := (K8sEndpoints d)(k := None)\<rparr>)
      \<and> (\<forall>p fe. p \<in> set (representatives (Ports svc))
             \<and> NewL3n4Addr env (Protocol p) (FEIP svc) (Port p) = Inr fe \<longrightarrow>
           fe \<notin> set (datapath (calls (snd (syncLB env newSN modSN (Some k) d))))))
   \<and> (\<forall>svc ep. K8sServices d k = Some svc \<and> K8sEndpoints d k = Some ep
        \<and> \<not> disableK8sServices env \<and> \<not> IsHeadless svc \<and> familiesDiffer env svc ep \<longrightarrow>
      fst (syncLB env newSN modSN (Some k) d) \<noteq> None
      \<and> snd (syncLB env newSN modSN (Some k) d) = d)
   \<and> ((K8sServices d k = None) \<noteq> (K8sEndpoints d k = None) \<longrightarrow>
      syncLB env newSN modSN (Some k) d =
        (None, d\<lparr>K8sServices := (K8sServices d)(k := None),
                  K8sEndpoints := (K8sEndpoints d)(k := None)\<rparr>))"
proof (intro conjI allI impI; (elim conjE)?)
  fix svc ep
  assume "K8sServices d k = Some svc" "K8sEndpoints d k = Some ep" "disableK8sServices env \<or> IsHeadless svc"
  then show "syncLB env newSN modSN (Some k) d =
        (None, d\<lparr>K8sServices := (K8sServices d)(k := None),
                  K8sEndpoints := (K8sEndpoints d)(k := None)\<rparr>)"
    by (rule syncLB_delete_quiet)
next
  fix svc ep
  assume a: "K8sServices d k = Some svc" "K8sEndpoints d k = Some ep"
    "\<not> disableK8sServices env" "\<not> IsHeadless svc" "\<not> familiesDiffer env svc ep"
  then show "syncLB env newSN modSN (Some k) d =
        (None, d\<lparr>calls := calls d @ concat (map (portDeletion env (FEIP svc))
                                             (representatives (Ports svc))),
                  K8sServices := (K8sServices d)(k := None),
                  K8sEndpoints := (K8sEndpoints d)(k := None)\<rparr>)"
    by (rule syncLB_delete_datapath)
  fix p fe
  assume "p \<in> set (representatives (Ports svc))"
    "NewL3n4Addr env (Protocol p) (FEIP svc) (Port p) = Inr fe"
  with a show "fe \<notin> set (datapath (calls (snd (syncLB env newSN modSN (Some k) d))))"
    by (rule syncLB_delete_datapath_empty)
next
  fix svc ep
  assume a: "K8sServices d k = Some svc" "K8sEndpoints d k = Some ep"
    "\<not> disableK8sServices env" "\<not> IsHeadless svc" "familiesDiffer env svc ep"
  from syncLB_delete_rejected [OF a]
  show "fst (syncLB env newSN modSN (Some k) d) \<noteq> None" "snd (syncLB env newSN modSN (Some k) d) = d"
    by simp_all
next
  assume "(K8sServices d k = None) \<noteq> (K8sEndpoints d k = None)"
  then show "syncLB env newSN modSN (Some k) d =
        (None, d\<lparr>K8sServices := (K8sServices d)(k := None),
                  K8sEndpoints := (K8sEndpoints d)(k := None)\<rparr>)"
    by (rule syncLB_delete_one)
qed

lemma afterAdds_tables:
  "K8sServices (afterAdds sid) webKey =
     Some (webServiceInfo\<lparr>Ports := [(''http'', \<lparr>Protocol = ''TCP'', Port = 80, ID = sid\<rparr>)]\<rparr>)"
  "K8sEndpoints (afterAdds sid) webKey =
     Some \<lparr>BEIPs = [''192.168.1.2'', ''192.168.1.3''],
           epPorts = [(''http'', \<lparr>Protocol = ''TCP'', Port = 8080\<rparr>)]\<rparr>"
  by (simp_all add: afterAdds_eq)

lemma afterAdds_datapath:
  "datapath (calls (afterAdds sid)) = [webFrontend]"
  by (simp add: afterAdds_eq datapath_def webFrontend_def)

theorem syncLB_delete_witness:
  "K8sServices (afterAdds 7) webKey \<noteq> None \<and> K8sEndpoints (afterAdds 7) webKey \<noteq> None
   \<and> datapath (calls (afterAdds 7)) = [webFrontend]
   \<and> syncLB (scenarioEnv False 7) None None (Some webKey) (afterAdds 7) =
       (None, (afterAdds 7)
                \<lparr>calls := calls (afterAdds 7) @ [DeleteID 7, SvcDeleteByFrontend webFrontend, RevNATDelete 7],
                 K8sServices := (K8sServices (afterAdds 7))(webKey := None),
                 K8sEndpoints := (K8sEndpoints (afterAdds 7))(webKey := None)\<rparr>)
   \<and> webFrontend \<notin> set (datapath (calls (snd (syncLB (scenarioEnv False 7) None None (Some webKey) (afterAdds 7)))))"
proof -
  let ?svc = "webServiceInfo\<lparr>Ports := [(''http'', \<lparr>Protocol = ''TCP'', Port = 80, ID = 7\<rparr>)]\<rparr>"
  let ?ep = "\<lparr>BEIPs = [''192.168.1.2'', ''192.168.1.3''],
             epPorts = [(''http'', \<lparr>Protocol = ''TCP'', Port = 8080\<rparr>)]\<rparr>"
  have f: "\<not> familiesDiffer (scenarioEnv False 7) ?svc ?ep"
    using families_of_the_scenarios(2) [of False 7] by (simp add: familiesDiffer_def)
  have h: "\<not> disableK8sServices (scenarioEnv False 7)" "\<not> IsHeadless ?svc"
    by (simp_all add: env_fields webServiceInfo_def)
  have r: "representatives (Ports ?svc) = [\<lparr>Protocol = ''TCP'', Port = 80, ID = 7\<rparr>]"
    by simp
  have n: "NewL3n4Addr (scenarioEnv False 7) ''TCP'' (FEIP ?svc) 80 = Inr webFrontend"
    by (simp add: env_fields webServiceInfo_def webFrontend_def)
  from syncLB_delete [of "afterAdds 7" webKey "scenarioEnv False 7" None None]
       afterAdds_tables [of 7] f h
  have s: "syncLB (scenarioEnv False 7) None None (Some webKey) (afterAdds 7) =
        (None, (afterAdds 7)\<lparr>calls := calls (afterAdds 7) @
                     concat (map (portDeletion (scenarioEnv False 7) (FEIP ?svc)) (representatives (Ports ?svc))),
                  K8sServices := (K8sServices (afterAdds 7))(webKey := None),
                  K8sEndpoints := (K8sEndpoints (afterAdds 7))(webKey := None)\<rparr>)"
    and e: "\<forall>p fe. p \<in> set (representatives (Ports ?svc))
             \<and> NewL3n4Addr (scenarioEnv False 7) (Protocol p) (FEIP ?svc) (Port p) = Inr fe \<longrightarrow>
           fe \<notin> set (datapath (calls (snd (syncLB (scenarioEnv False 7) None None (Some webKey) (afterAdds 7)))))"
    by blast+
  have p: "concat (map (portDeletion (scenarioEnv False 7) (FEIP ?svc)) (representatives (Ports ?svc)))
            = [DeleteID 7, SvcDeleteByFrontend webFrontend, RevNATDelete 7]"
    using n by (simp add: portDeletion_def)
  from e [rule_format, of "\<lparr>Protocol = ''TCP'', Port = 80, ID = 7\<rparr>" webFrontend] n
  have "webFrontend \<notin> set (datapath (calls (snd (syncLB (scenarioEnv False 7) None None (Some webKey) (afterAdds 7)))))"
    by simp
  with s p afterAdds_tables [of 7] afterAdds_datapath [of 7] show ?thesis
    by simp
qed

text \<open>
  C5, as stated, fails when the families of the addresses differ: both entries are there,
  the delete returns the error and both entries stay.
\<close>

theorem syncLB_delete_keeps_rejected_service:
  "K8sServices afterMixed webKey = Some webServiceInfo
   \<and> K8sEndpoints afterMixed webKey = Some mixedServiceEndpoint
   \<and> fst (syncLB (scenarioEnv False 7) None None (Some webKey) afterMixed) \<noteq> None
   \<and> K8sServices (snd (syncLB (scenarioEnv False 7) None None (Some webKey) afterMixed)) webKey
       = Some webServiceInfo
   \<and> K8sEndpoints (snd (syncLB (scenarioEnv False 7) None None (Some webKey) afterMixed)) webKey
       = Some mixedServiceEndpoint"
  by (simp add: afterMixed_eq syncLB_def syncLB_deleteSN_def delK8sSVCs_def env_fields Let_def
      areIPsConsistent_def webServiceInfo_def mixedServiceEndpoint_def To4_v4InV6 To4_uniqueLocal1)

subsection \<open>Scenario S2; headless services\<close>

text \<open>
  C6 (amended). Scenario S2: the service \<open>web\<close> (ClusterIP 10.0.0.5, port http = 80/TCP) is
  added, then its endpoints (192.168.1.2 and 192.168.1.3, port http = 8080/TCP), then the
  endpoints are deleted. The deletion releases the ID (when it is not 0), calls
  \<open>svcDeleteByFrontend\<close> on 10.0.0.5:80/TCP and \<open>RevNATDelete\<close> on the ID that was
  allocated, and removes both the endpoints entry and the service entry of the key.
\<close>

theorem scenario_S2_endpoints_delete:
  "calls (afterAdds sid) =
     [AcquireID webFrontend 0
        (Inr \<lparr>Protocol = ''TCP'', Port = 80, IP = v4InV6 10 0 0 5, AddrID = sid\<rparr>),
      SvcAdd \<lparr>Protocol = ''TCP'', Port = 80, IP = v4InV6 10 0 0 5, AddrID = sid\<rparr>
        [\<lparr>Protocol = ''TCP'', Port = 8080, IP = v4InV6 192 168 1 2, Weight = 0\<rparr>,
         \<lparr>Protocol = ''TCP'', Port = 8080, IP = v4InV6 192 168 1 3, Weight = 0\<rparr>] True]
   \<and> K8sServices (afterAdds sid) webKey \<noteq> None
   \<and> fst (deleteK8sEndpointV1 (scenarioEnv False sid) webEndpoints (afterAdds sid)) = None
   \<and> calls (snd (deleteK8sEndpointV1 (scenarioEnv False sid) webEndpoints (afterAdds sid))) =
       calls (afterAdds sid) @ (if sid \<noteq> 0 then [DeleteID (ucast sid)] else [])
         @ [SvcDeleteByFrontend webFrontend, RevNATDelete sid]
   \<and> K8sEndpoints (snd (deleteK8sEndpointV1 (scenarioEnv False sid) webEndpoints (afterAdds sid))) webKey = None
   \<and> K8sServices (snd (deleteK8sEndpointV1 (scenarioEnv False sid) webEndpoints (afterAdds sid))) webKey = None"
  by (simp add: afterAdds_eq deleteK8sEndpointV1_def env_fields Let_def
      object_keys emptyDaemon_fields webKey_def syncLB_def syncLB_deleteSN_def delK8sSVCs_def
      webServiceInfo_def To4_v4InV6 areIPsConsistent_def getUniqPorts_def
      webFrontend_def endpointImportMetadataCache_delete_def)

theorem endpoints_delete_drops_service_entry:
  "K8sServices (afterAdds 7) webKey \<noteq> None
   \<and> K8sServices (snd (deleteK8sEndpointV1 (scenarioEnv False 7) webEndpoints (afterAdds 7))) webKey = None"
  by (simp add: afterAdds_eq deleteK8sEndpointV1_def env_fields Let_def
      object_keys emptyDaemon_fields webKey_def syncLB_def syncLB_deleteSN_def delK8sSVCs_def
      webServiceInfo_def To4_v4InV6 areIPsConsistent_def getUniqPorts_def
      webFrontend_def endpointImportMetadataCache_delete_def)

lemma parseSvcV1_headless:
  "parseSvcV1 env s = Some si \<Longrightarrow> IsHeadless si = (ToLower (ClusterIP s) = ''none'')"
  by (auto simp: parseSvcV1_def NewK8sServiceInfo_def Let_def split: if_splits)

lemma syncLB_headless:
  "K8sServices d k = Some si \<Longrightarrow> IsHeadless si \<Longrightarrow>
     calls (snd (syncLB_addSN env k d)) = calls d \<and> calls (snd (syncLB_deleteSN env k d)) = calls d"
  by (auto simp: syncLB_addSN_def syncLB_deleteSN_def addK8sSVCs_def delK8sSVCs_def split: option.splits)

lemma addK8sServiceV1_headless:
  "ToLower (ClusterIP s) = ''none'' \<Longrightarrow> calls (snd (addK8sServiceV1 env s d)) = calls d"
  apply (cases "parseSvcV1 env s")
   apply (simp add: addK8sServiceV1_def)
  apply (frule parseSvcV1_headless)
  apply (auto simp: addK8sServiceV1_def Let_def syncLB_def syncLB_addSN_def addK8sSVCs_def split: option.splits)
  done

text \<open>
  C7 (amended). When the flag \<open>disable-k8s-services\<close> is set or the service is headless, \<open>addK8sSVCs\<close>
  and \<open>delK8sSVCs\<close> return nil and leave the state as it is: no call to the datapath, to
  the ID allocator or for a reverse NAT is made, no ID is stored. \<open>parseSvcV1\<close> makes a
  service headless exactly when its ClusterIP is \<open>none\<close> in lower case. Hence no handler
  installs anything for a headless service: joining a key whose service is headless makes
  no call, and neither does the add event of a headless service.
\<close>

theorem headless_or_disabled_noop:
  "(disableK8sServices env \<or> IsHeadless svcInfo \<longrightarrow>
      addK8sSVCs env svc svcInfo se d = (None, svcInfo, d)
      \<and> delK8sSVCs env svc svcInfo se d = (None, d))
   \<and> (\<forall>si. parseSvcV1 env s = Some si \<longrightarrow> IsHeadless si = (ToLower (ClusterIP s) = ''none''))
   \<and> (\<forall>k si. K8sServices d k = Some si \<and> IsHeadless si \<longrightarrow>
         calls (snd (syncLB_addSN env k d)) = calls d
         \<and> calls (snd (syncLB_deleteSN env k d)) = calls d)
   \<and> (ToLower (ClusterIP s) = ''none'' \<longrightarrow> calls (snd (addK8sServiceV1 env s d)) = calls d)"
  using parseSvcV1_headless [of env s] syncLB_headless [of d _ _ env] addK8sServiceV1_headless [of s env d]
  by (auto simp: addK8sSVCs_def delK8sSVCs_def)

theorem headless_or_disabled_noop_witness:
  "IsHeadless (webServiceInfo\<lparr>FEIP := [], IsHeadless := True\<rparr>)
   \<and> parseSvcV1 (scenarioEnv False 7) headlessService = Some (webServiceInfo\<lparr>FEIP := [], IsHeadless := True\<rparr>)
   \<and> addK8sSVCs (scenarioEnv False 7) webKey (webServiceInfo\<lparr>FEIP := [], IsHeadless := True\<rparr>)
        mixedServiceEndpoint afterEndpoints
       = (None, webServiceInfo\<lparr>FEIP := [], IsHeadless := True\<rparr>, afterEndpoints)
   \<and> delK8sSVCs (scenarioEnv False 7) webKey (webServiceInfo\<lparr>FEIP := [], IsHeadless := True\<rparr>)
        mixedServiceEndpoint afterEndpoints = (None, afterEndpoints)
   \<and> ToLower (ClusterIP headlessService) = ''none''
   \<and> calls (snd (addK8sServiceV1 (scenarioEnv False 7) headlessService afterEndpoints)) = calls afterEndpoints"
proof -
  have h: "IsHeadless (webServiceInfo\<lparr>FEIP := [], IsHeadless := True\<rparr>)" by simp
  have l: "ToLower (ClusterIP headlessService) = ''none''"
    by (simp add: headlessService_def ToLower_None)
  from headless_or_disabled_noop [of "scenarioEnv False 7" "webServiceInfo\<lparr>FEIP := [], IsHeadless := True\<rparr>"
         webKey mixedServiceEndpoint afterEndpoints headlessService] h l parse_headlessService [of False 7]
  show ?thesis by blast
qed

lemma run_adds: "run (scenarioEnv False sid) store [ServiceAdd webService, EndpointsAdd webEndpoints] emptyDaemon = afterAdds sid"
  by (simp add: run_def handleEvent_def afterAdds_def)

lemma ToLower_address: "ToLower ''10.0.0.5'' = ''10.0.0.5''"
  by code_simp

lemma headless_update_delivered:
  "delivered (scenarioEnv dis sid) (ServiceUpdate webService headlessService)"
  by (simp add: updateIsDelivered_def equalV1Services_def Let_def env_fields NewK8sServiceInfo_def
        webService_def headlessService_def ToLower_None ToLower_address)

lemma afterHeadless:
  "addK8sServiceV1 (scenarioEnv False sid) headlessService (afterAdds sid) =
     (None, (afterAdds sid)\<lparr>K8sServices := (K8sServices (afterAdds sid))
                (webKey \<mapsto> webServiceInfo\<lparr>FEIP := [], IsHeadless := True\<rparr>)\<rparr>)"
  by (simp add: addK8sServiceV1_def parse_headlessService Let_def object_keys afterAdds_tables
        env_fields webServiceInfo_def syncLB_def syncLB_addSN_def addK8sSVCs_def webKey_def [symmetric])

lemma run_headless:
  "run (scenarioEnv False sid) store
     [ServiceAdd webService, EndpointsAdd webEndpoints, ServiceUpdate webService headlessService] emptyDaemon =
   (afterAdds sid)\<lparr>K8sServices := (K8sServices (afterAdds sid))
                (webKey \<mapsto> webServiceInfo\<lparr>FEIP := [], IsHeadless := True\<rparr>)\<rparr>"
proof -
  have "run (scenarioEnv False sid) store
     [ServiceAdd webService, EndpointsAdd webEndpoints, ServiceUpdate webService headlessService] emptyDaemon =
     handleEvent (scenarioEnv False sid) store (ServiceUpdate webService headlessService) (afterAdds sid)"
    using run_adds [of sid store] by (simp add: run_def)
  then show ?thesis
    using headless_update_delivered [of False sid]
    by (simp add: handleEvent_def updateK8sServiceV1_def afterHeadless del: delivered.simps)
qed

text \<open>
  C7, as stated, fails in its last clause: a datapath entry can exist for a headless
  service. The service \<open>web\<close> is added with a cluster IP, then its endpoints: the frontend
  10.0.0.5:80/TCP is installed. An update then makes the service headless: the update is
  delivered, the handler stores the headless service and makes no call, so the entry
  stays. Deleting the service afterwards removes the table entries and still makes no
  call.
\<close>

theorem headless_service_keeps_datapath_entry:
  "delivered (scenarioEnv False 7) (ServiceUpdate webService headlessService)
   \<and> K8sServices
       (run (scenarioEnv False 7) cachedStore
          [ServiceAdd webService, EndpointsAdd webEndpoints, ServiceUpdate webService headlessService]
          emptyDaemon) webKey = Some (webServiceInfo\<lparr>FEIP := [], IsHeadless := True\<rparr>)
   \<and> IsHeadless (webServiceInfo\<lparr>FEIP := [], IsHeadless := True\<rparr>)
   \<and> datapath (calls
       (run (scenarioEnv False 7) cachedStore
          [ServiceAdd webService, EndpointsAdd webEndpoints, ServiceUpdate webService headlessService]
          emptyDaemon)) = [webFrontend]
   \<and> K8sServices
       (run (scenarioEnv False 7) cachedStore
          [ServiceAdd webService, EndpointsAdd webEndpoints, ServiceUpdate webService headlessService,
           ServiceDelete headlessService]
          emptyDaemon) webKey = None
   \<and> datapath (calls
       (run (scenarioEnv False 7) cachedStore
          [ServiceAdd webService, EndpointsAdd webEndpoints, ServiceUpdate webService headlessService,
           ServiceDelete headlessService]
          emptyDaemon)) = [webFrontend]"
proof -
  let ?E = "scenarioEnv False 7"
  let ?s = "(afterAdds 7)\<lparr>K8sServices := (K8sServices (afterAdds 7))
                (webKey \<mapsto> webServiceInfo\<lparr>FEIP := [], IsHeadless := True\<rparr>)\<rparr>"
  have d: "run ?E cachedStore
          [ServiceAdd webService, EndpointsAdd webEndpoints, ServiceUpdate webService headlessService,
           ServiceDelete headlessService] emptyDaemon =
        snd (deleteK8sServiceV1 ?E headlessService ?s)"
    using run_headless [of 7 cachedStore] by (simp add: run_def handleEvent_def)
  have e: "deleteK8sServiceV1 ?E headlessService ?s =
        (None, ?s\<lparr>K8sServices := (K8sServices ?s)(webKey := None),
                  K8sEndpoints := (K8sEndpoints ?s)(webKey := None)\<rparr>)"
    by (simp add: deleteK8sServiceV1_def Let_def object_keys syncLB_def syncLB_deleteSN_def
          afterAdds_tables delK8sSVCs_def webKey_def [symmetric])
  show ?thesis
    by (simp add: headless_update_delivered run_headless d e afterAdds_datapath del: delivered.simps)
qed

subsection \<open>CiliumNetworkPolicy events\<close>




subsection \<open>What the handlers leave of the import metadata\<close>

text \<open>
  Only an add, a delete, or a delivered update that imports, writes the entry of a key
  in the import metadata cache, and only under the key of its own policy.
\<close>

lemma addK8sSVCs_cache:
  "importMetadataCache (snd (snd (addK8sSVCs env svc svcInfo se d))) = importMetadataCache d"
  by (simp add: addK8sSVCs_def Let_def split: option.splits prod.splits)

lemma delK8sSVCs_cache:
  "importMetadataCache (snd (delK8sSVCs env svc svcInfo se d)) = importMetadataCache d"
  by (subst delK8sSVCs_frame) simp

lemma syncLB_deleteSN_cache:
  "importMetadataCache (snd (syncLB_deleteSN env sn d)) = importMetadataCache d"
proof (cases "K8sServices d sn")
  case None
  then show ?thesis by (simp add: syncLB_deleteSN_def)
next
  case (Some svc)
  show ?thesis
  proof (cases "K8sEndpoints d sn")
    case None
    with Some show ?thesis by (simp add: syncLB_deleteSN_def)
  next
    case (Some endpoint)
    obtain e d' where r: "delK8sSVCs env sn svc endpoint d = (e, d')"
      by (cases "delK8sSVCs env sn svc endpoint d")
    have "importMetadataCache d' = importMetadataCache d"
      using delK8sSVCs_cache [of env sn svc endpoint d] r by simp
    with \<open>K8sServices d sn = Some svc\<close> Some r show ?thesis
      by (cases e) (simp_all add: syncLB_deleteSN_def)
  qed
qed

lemma syncLB_addSN_cache:
  "importMetadataCache (snd (syncLB_addSN env sn d)) = importMetadataCache d"
proof (cases "K8sServices d sn")
  case None
  then show ?thesis by (simp add: syncLB_addSN_def)
next
  case (Some svc)
  show ?thesis
  proof (cases "K8sEndpoints d sn")
    case None
    with Some show ?thesis by (simp add: syncLB_addSN_def)
  next
    case (Some endpoint)
    obtain e si d' where r: "addK8sSVCs env sn svc endpoint d = (e, si, d')"
      by (cases "addK8sSVCs env sn svc endpoint d")
    have "importMetadataCache d' = importMetadataCache d"
      using addK8sSVCs_cache [of env sn svc endpoint d] r by simp
    with \<open>K8sServices d sn = Some svc\<close> Some r show ?thesis
      by (simp add: syncLB_addSN_def)
  qed
qed

lemma syncLB_cache:
  "importMetadataCache (snd (syncLB env newSN modSN delSN d)) = importMetadataCache d"
  by (simp add: syncLB_def syncLB_addSN_cache syncLB_deleteSN_cache split: option.splits)

lemma syncExternalLB_deleteSN_cache:
  "importMetadataCache (snd (syncExternalLB_deleteSN env sn d)) = importMetadataCache d"
proof (cases "K8sIngress d sn")
  case None
  then show ?thesis by (simp add: syncExternalLB_deleteSN_def)
next
  case (Some svc)
  show ?thesis
  proof (cases "K8sEndpoints d sn")
    case None
    with Some show ?thesis by (simp add: syncExternalLB_deleteSN_def)
  next
    case (Some endpoint)
    obtain e d' where r: "delK8sSVCs env sn svc endpoint d = (e, d')"
      by (cases "delK8sSVCs env sn svc endpoint d")
    have "importMetadataCache d' = importMetadataCache d"
      using delK8sSVCs_cache [of env sn svc endpoint d] r by simp
    with \<open>K8sIngress d sn = Some svc\<close> Some r show ?thesis
      by (cases e) (simp_all add: syncExternalLB_deleteSN_def)
  qed
qed

lemma syncExternalLB_addSN_cache:
  "importMetadataCache (snd (syncExternalLB_addSN env sn d)) = importMetadataCache d"
proof (cases "K8sIngress d sn")
  case None
  then show ?thesis by (simp add: syncExternalLB_addSN_def)
next
  case (Some svc)
  show ?thesis
  proof (cases "K8sEndpoints d sn")
    case None
    with Some show ?thesis by (simp add: syncExternalLB_addSN_def)
  next
    case (Some endpoint)
    obtain e si d' where r: "addK8sSVCs env sn svc endpoint d = (e, si, d')"
      by (cases "addK8sSVCs env sn svc endpoint d")
    have "importMetadataCache d' = importMetadataCache d"
      using addK8sSVCs_cache [of env sn svc endpoint d] r by simp
    with \<open>K8sIngress d sn = Some svc\<close> Some r show ?thesis
      by (simp add: syncExternalLB_addSN_def)
  qed
qed

lemma syncExternalLB_cache:
  "importMetadataCache (snd (syncExternalLB env newSN modSN delSN d)) = importMetadataCache d"
  by (simp add: syncExternalLB_def syncExternalLB_addSN_cache syncExternalLB_deleteSN_cache
           split: option.splits)



lemma syncLB_cacheD:
  "syncLB env newSN modSN delSN d = (e, d') \<Longrightarrow> importMetadataCache d' = importMetadataCache d"
  using syncLB_cache [of env newSN modSN delSN d] by simp

lemma syncExternalLB_cacheD:
  "syncExternalLB env newSN modSN delSN d = (e, d') \<Longrightarrow> importMetadataCache d' = importMetadataCache d"
  using syncExternalLB_cache [of env newSN modSN delSN d] by simp













subsection \<open>Adding a policy\<close>


subsection \<open>Updating the annotations of a policy\<close>




subsection \<open>The policy scenarios\<close>












end
